theory Spec2Isabelle
  imports Main "HOL-Library.Char_ord"
begin

section \<open>The EVP proxy transport of the trace agent\<close>

text \<open>
  A shallow embedding of the Go file that defines \<open>isValidSubdomain\<close>, \<open>isValidPath\<close>,
  \<open>isValidQueryString\<close>, \<open>evpProxyEndpointsFromConfig\<close> and \<open>evpProxyTransport.RoundTrip\<close>
  (package \<open>api\<close> of the trace agent).

  Go strings are byte sequences and \<open>string\<close> here is a list of 8-bit characters. The
  validators range over runes, not bytes; every rune they accept is an ASCII character,
  and every byte of a multi-byte or malformed UTF-8 sequence is at least \<open>0x80\<close>, which
  the same comparisons reject, so a string passes rune by rune exactly when it passes
  byte by byte.
\<close>

subsection \<open>Input validation\<close>

definition validSubdomainSymbols :: string where
  "validSubdomainSymbols = ''_-.''"

definition validPathSymbols :: string where
  "validPathSymbols = ''/_-+''"

definition validPathQueryStringSymbols :: string where
  "validPathQueryStringSymbols = ''/_-+@?&=.:'' @ [CHR 0x22]"

text \<open>\<open>strings.ContainsRune\<close>.\<close>

definition containsRune :: "string \<Rightarrow> char \<Rightarrow> bool" where
  "containsRune s c = (c \<in> set s)"

fun isValidSubdomain :: "string \<Rightarrow> bool" where
  "isValidSubdomain [] = True"
| "isValidSubdomain (c # s) =
     (if (c < CHR ''a'' \<or> c > CHR ''z'') \<and> (c < CHR ''A'' \<or> c > CHR ''Z'')
         \<and> (c < CHR ''0'' \<or> c > CHR ''9'') \<and> \<not> containsRune validSubdomainSymbols c
      then False
      else isValidSubdomain s)"

fun isValidPath :: "string \<Rightarrow> bool" where
  "isValidPath [] = True"
| "isValidPath (c # s) =
     (if (c < CHR ''a'' \<or> c > CHR ''z'') \<and> (c < CHR ''A'' \<or> c > CHR ''Z'')
         \<and> (c < CHR ''0'' \<or> c > CHR ''9'') \<and> \<not> containsRune validPathSymbols c
      then False
      else isValidPath s)"

fun isValidQueryString :: "string \<Rightarrow> bool" where
  "isValidQueryString [] = True"
| "isValidQueryString (c # s) =
     (if (c < CHR ''a'' \<or> c > CHR ''z'') \<and> (c < CHR ''A'' \<or> c > CHR ''Z'')
         \<and> (c < CHR ''0'' \<or> c > CHR ''9'') \<and> \<not> containsRune validPathQueryStringSymbols c
      then False
      else isValidQueryString s)"

text \<open>The character classes as the specification words them.\<close>

definition isLetter :: "char \<Rightarrow> bool" where
  "isLetter c = ((CHR ''a'' \<le> c \<and> c \<le> CHR ''z'') \<or> (CHR ''A'' \<le> c \<and> c \<le> CHR ''Z''))"

definition isDigit :: "char \<Rightarrow> bool" where
  "isDigit c = (CHR ''0'' \<le> c \<and> c \<le> CHR ''9'')"

subsection \<open>Endpoints and configuration\<close>

text \<open>\<open>config.Endpoint\<close>, with the two fields the proxy reads.\<close>

record endpoint =
  Host :: string
  APIKey :: string

text \<open>
  \<open>conf.EVPProxy\<close>. \<open>AdditionalEndpoints\<close> is a Go map from a host to its API keys; the
  \<open>range\<close> statement enumerates a map in an order the runtime chooses, so the field holds
  the entries in the order of that enumeration.
\<close>

record evpProxyConfig =
  evp_Enabled :: bool
  evp_DDURL :: string
  evp_APIKey :: string
  evp_AdditionalEndpoints :: "(string \<times> string list) list"
  evp_MaxPayloadSize :: int

text \<open>
  \<open>config.AgentConfig\<close>, with the fields the proxy reads. \<open>conf_APIKey\<close> is what the
  method \<open>conf.APIKey()\<close> returns, and \<open>ContainerTags\<close> is the tag-lookup collaborator.
\<close>

record agentConfig =
  EVPProxy :: evpProxyConfig
  Site :: string
  conf_APIKey :: string
  Hostname :: string
  DefaultEnv :: string
  ContainerTags :: "string \<Rightarrow> string"

definition evpProxyEndpointsFromConfig :: "agentConfig \<Rightarrow> endpoint list" where
  "evpProxyEndpointsFromConfig conf =
     (let apiKey = evp_APIKey (EVPProxy conf);
          apiKey = (if apiKey = [] then conf_APIKey conf else apiKey);
          endpoint = evp_DDURL (EVPProxy conf);
          endpoint = (if endpoint = [] then Site conf else endpoint);
          mainEndpoint = \<lparr>Host = endpoint, APIKey = apiKey\<rparr>;
          endpoints = [mainEndpoint]
      in foldl (\<lambda>endpoints (host, keys).
                  foldl (\<lambda>endpoints key. endpoints @ [\<lparr>Host = host, APIKey = key\<rparr>])
                    endpoints keys)
           endpoints (evp_AdditionalEndpoints (EVPProxy conf)))"

subsection \<open>Requests, responses, errors\<close>

text \<open>
  \<open>http.Header\<close> maps a header name to its values. \<open>Get\<close> and \<open>Set\<close> bring the name
  to its canonical MIME form before they touch the map, so names behave as keys that
  ignore case; the model writes every name the way the source writes it.
\<close>

type_synonym header = "string \<rightharpoonup> string list"

definition header_Get :: "header \<Rightarrow> string \<Rightarrow> string" where
  "header_Get h key = (case h key of None \<Rightarrow> [] | Some [] \<Rightarrow> [] | Some (v # _) \<Rightarrow> v)"

definition header_Set :: "header \<Rightarrow> string \<Rightarrow> string \<Rightarrow> header" where
  "header_Set h key v = h(key \<mapsto> [v])"

text \<open>
  The errors \<open>RoundTrip\<close> creates with \<open>fmt.Errorf\<close>, the error of the size-limited
  reader, and any other error a reader or the underlying transport reports.
\<close>

datatype error =
    ErrNoSubdomain
  | ErrInvalidSubdomain string
  | ErrInvalidPath string
  | ErrInvalidQuery string
  | ErrLimitedReaderLimitReached
  | ErrOther string

fun errorString :: "error \<Rightarrow> string" where
  "errorString ErrNoSubdomain = ''EVPProxy: no subdomain specified''"
| "errorString (ErrInvalidSubdomain subdomain) = ''EVPProxy: invalid subdomain: '' @ subdomain"
| "errorString (ErrInvalidPath path) = ''EVPProxy: invalid target path: '' @ path"
| "errorString (ErrInvalidQuery query) = ''EVPProxy: invalid query string: '' @ query"
| "errorString ErrLimitedReaderLimitReached = ''read limit reached''"
| "errorString (ErrOther msg) = msg"

type_synonym bytes = "char list"

text \<open>
  A request body is an \<open>io.ReadCloser\<close>. \<open>Source bs e\<close> delivers the bytes \<open>bs\<close> and then
  ends, with end-of-file when \<open>e\<close> is \<open>None\<close> and with the read error \<open>e\<close> otherwise;
  \<open>ioutil.NopCloser (bytes.NewReader bs)\<close> is \<open>Source bs None\<close>.
  \<open>LimitedReader r limit\<close> is \<open>apiutil.NewLimitedReader (r, limit)\<close>.
\<close>

datatype readCloser =
    Source bytes "error option"
  | LimitedReader readCloser int

text \<open>
  Modelled from the spec: \<open>apiutil.NewLimitedReader\<close> is not part of the sources at hand.
  The specification describes a size-limited reader that fails with a payload-too-large
  condition once more than the configured number of bytes has been read, checked as the
  bytes are read. \<open>delivered r\<close> is what a consumer that reads \<open>r\<close> to its end
  receives: the bytes and how the stream ended.
\<close>

fun delivered :: "readCloser \<Rightarrow> bytes \<times> error option" where
  "delivered (Source bs e) = (bs, e)"
| "delivered (LimitedReader r limit) =
     (case delivered r of
        (bs, e) \<Rightarrow>
          if int (length bs) > limit
          then (take (nat limit) bs, Some ErrLimitedReaderLimitReached)
          else (bs, e))"

text \<open>\<open>ioutil.ReadAll\<close>, as \<open>RoundTrip\<close> uses it: the error, or all the bytes.\<close>

definition readAll :: "readCloser \<Rightarrow> error + bytes" where
  "readAll r = (case delivered r of (bs, None) \<Rightarrow> Inr bs | (bs, Some err) \<Rightarrow> Inl err)"

text \<open>\<open>http.Request\<close>, with the fields \<open>RoundTrip\<close> reads or writes.\<close>

record request =
  req_Host :: string
  url_Scheme :: string
  url_Host :: string
  url_Path :: string
  url_RawQuery :: string
  req_Header :: header
  req_Body :: "readCloser option"
  ContentLength :: int

record response =
  StatusCode :: int
  resp_Body :: bytes

text \<open>
  What \<open>RoundTrip\<close> does besides returning: it hands a request to the underlying
  transport, drains and closes a response body, logs an error, and emits metrics
  (\<open>metrics.Count\<close> with name, value and tags; \<open>metrics.Timing\<close> with name and tags, the
  measured duration left out). The events are listed in the order they happen.
\<close>

datatype event =
    Send request
  | Drain response
  | Close response
  | LogError error
  | Count string int "string list"
  | Timing string "string list"

text \<open>
  The underlying \<open>http.RoundTripper\<close>: from its own state and a request it yields a
  response pointer and an error, either of which may be nil, and its next state.
\<close>

type_synonym 's roundTripper = "'s \<Rightarrow> request \<Rightarrow> (response option \<times> error option) \<times> 's"

record 's evpProxyTransport =
  transport :: "'s roundTripper"
  endpoints :: "endpoint list"
  conf :: agentConfig

text \<open>
  Modelled from the spec: \<open>getContainerTags\<close> is not part of the sources at hand. The
  specification sets the container-tags header only if a container ID was present
  inbound and the tag-lookup collaborator returns a non-empty tag string for it.
\<close>

definition getContainerTags :: "(string \<Rightarrow> string) \<Rightarrow> string \<Rightarrow> string" where
  "getContainerTags fn containerID = (if containerID = [] then [] else fn containerID)"

subsection \<open>RoundTrip\<close>

text \<open>The closure \<open>setTarget\<close>; \<open>subdomain\<close> is the variable it captures.\<close>

definition setTarget :: "string \<Rightarrow> request \<Rightarrow> string \<Rightarrow> string \<Rightarrow> request" where
  "setTarget subdomain r host apiKey =
     (let targetHost = subdomain @ ''.'' @ host
      in r\<lparr>req_Host := targetHost, url_Host := targetHost,
            req_Header := header_Set (req_Header r) ''DD-API-KEY'' apiKey\<rparr>)"

text \<open>
  The headers set between clearing the inbound ones and choosing a target.
  \<open>version\<close> stands for \<open>info.Version\<close>.
\<close>

definition standardHeaders ::
  "agentConfig \<Rightarrow> string \<Rightarrow> string \<Rightarrow> string \<Rightarrow> string \<Rightarrow> header" where
  "standardHeaders cfg version contentType userAgent containerID =
     (let h = Map.empty;
          h = header_Set h ''Via'' (''trace-agent '' @ version);
          h = (if contentType \<noteq> [] then header_Set h ''Content-Type'' contentType else h);
          h = header_Set h ''User-Agent'' userAgent;
          ctags = getContainerTags (ContainerTags cfg) containerID;
          h = (if ctags \<noteq> [] then header_Set h ''X-Datadog-Container-Tags'' ctags else h);
          h = header_Set h ''X-Datadog-Hostname'' (Hostname cfg);
          h = header_Set h ''X-Datadog-AgentDefaultEnv'' (DefaultEnv cfg)
      in h)"

text \<open>
  The loop over \<open>t.endpoints\<close>, from index \<open>i\<close> on. \<open>res\<close> holds the named results
  \<open>rresp\<close> and \<open>rerr\<close>. The result is their final value, whether the loop panicked, the
  transport's state and the events. A secondary endpoint for which the transport
  returns a nil response together with a nil error makes \<open>resp.Body\<close> dereference nil.
\<close>

fun forEachEndpoint ::
  "'s roundTripper \<Rightarrow> string \<Rightarrow> request \<Rightarrow> bytes option \<Rightarrow> nat \<Rightarrow> endpoint list \<Rightarrow>
   response option \<times> error option \<Rightarrow> 's \<Rightarrow>
   (response option \<times> error option) \<times> bool \<times> 's \<times> event list" where
  "forEachEndpoint tr subdomain req slurp i [] res s = (res, False, s, [])"
| "forEachEndpoint tr subdomain req slurp i (endpointDomain # rest) res s =
     (let newreq = req;
          newreq = (case slurp of None \<Rightarrow> newreq
                    | Some b \<Rightarrow> newreq\<lparr>req_Body := Some (Source b None)\<rparr>);
          newreq = setTarget subdomain newreq (Host endpointDomain) (APIKey endpointDomain)
      in case tr s newreq of
           (r, s') \<Rightarrow>
             if i = 0 then
               (case forEachEndpoint tr subdomain req slurp (Suc i) rest r s' of
                  (res', p, s'', evs) \<Rightarrow> (res', p, s'', Send newreq # evs))
             else
               (case r of
                  (Some resp, None) \<Rightarrow>
                    (case forEachEndpoint tr subdomain req slurp (Suc i) rest res s' of
                       (res', p, s'', evs) \<Rightarrow>
                         (res', p, s'', Send newreq # Drain resp # Close resp # evs))
                | (None, None) \<Rightarrow> (res, True, s', [Send newreq])
                | (_, Some err) \<Rightarrow>
                    (case forEachEndpoint tr subdomain req slurp (Suc i) rest res s' of
                       (res', p, s'', evs) \<Rightarrow>
                         (res', p, s'', Send newreq # LogError err # evs))))"

text \<open>
  The first statement of \<open>RoundTrip\<close>: a body that is not nil is wrapped in the
  size-limited reader when a positive \<open>MaxPayloadSize\<close> is configured.
\<close>

definition limitBody :: "agentConfig \<Rightarrow> request \<Rightarrow> request" where
  "limitBody cfg req =
     (case req_Body req of
        None \<Rightarrow> req
      | Some b \<Rightarrow>
          if evp_MaxPayloadSize (EVPProxy cfg) > 0
          then req\<lparr>req_Body := Some (LimitedReader b (evp_MaxPayloadSize (EVPProxy cfg)))\<rparr>
          else req)"

text \<open>
  The buffering before the loop: \<open>slurp\<close> stays nil when the request has no body, and
  a read error ends the call.
\<close>

definition slurpBody :: "request \<Rightarrow> error + bytes option" where
  "slurpBody req =
     (case req_Body req of
        None \<Rightarrow> Inr None
      | Some b \<Rightarrow> (case readAll b of Inl err \<Rightarrow> Inl err | Inr body \<Rightarrow> Inr (Some body)))"

text \<open>How a call of \<open>RoundTrip\<close> ends, and what it did.\<close>

record 's outcome =
  rresp :: "response option"
  rerr :: "error option"
  panicked :: bool
  metricTags :: "string list"
  state :: 's
  events :: "event list"

text \<open>
  The body of \<open>RoundTrip\<close> after the \<open>defer\<close> statement. \<open>tags\<close> is \<open>metricTags\<close> as the
  deferred function will find it.
\<close>

definition roundTripBody ::
  "'s evpProxyTransport \<Rightarrow> string \<Rightarrow> request \<Rightarrow> string list \<Rightarrow> 's \<Rightarrow> 's outcome" where
  "roundTripBody t version req tags s =
     (let subdomain = header_Get (req_Header req) ''X-Datadog-EVP-Subdomain'';
          containerID = header_Get (req_Header req) ''Datadog-Container-ID'';
          contentType = header_Get (req_Header req) ''Content-Type'';
          userAgent = header_Get (req_Header req) ''User-Agent''
      in if length subdomain = 0 then
           \<lparr>rresp = None, rerr = Some ErrNoSubdomain, panicked = False,
            metricTags = tags, state = s, events = []\<rparr>
         else if \<not> isValidSubdomain subdomain then
           \<lparr>rresp = None, rerr = Some (ErrInvalidSubdomain subdomain), panicked = False,
            metricTags = tags, state = s, events = []\<rparr>
         else
           let tags = tags @ [''subdomain:'' @ subdomain]
           in if \<not> isValidPath (url_Path req) then
                \<lparr>rresp = None, rerr = Some (ErrInvalidPath (url_Path req)), panicked = False,
                 metricTags = tags, state = s, events = []\<rparr>
              else if \<not> isValidQueryString (url_RawQuery req) then
                \<lparr>rresp = None, rerr = Some (ErrInvalidQuery (url_RawQuery req)),
                 panicked = False, metricTags = tags, state = s, events = []\<rparr>
              else
                let req = req\<lparr>req_Header :=
                            standardHeaders (conf t) version contentType userAgent containerID\<rparr>;
                    req = req\<lparr>url_Scheme := ''https''\<rparr>
                in if length (endpoints t) = 1 then
                     let req = setTarget subdomain req
                                 (Host (endpoints t ! 0)) (APIKey (endpoints t ! 0))
                     in case transport t s req of
                          ((resp, err), s') \<Rightarrow>
                            \<lparr>rresp = resp, rerr = err, panicked = False,
                             metricTags = tags, state = s', events = [Send req]\<rparr>
                   else
                     case slurpBody req of
                       Inl err \<Rightarrow>
                         \<lparr>rresp = None, rerr = Some err, panicked = False,
                          metricTags = tags, state = s, events = []\<rparr>
                     | Inr slurp \<Rightarrow>
                         (case forEachEndpoint (transport t) subdomain req slurp 0
                                 (endpoints t) (None, None) s of
                            ((resp, err), p, s', evs) \<Rightarrow>
                              \<lparr>rresp = resp, rerr = err, panicked = p,
                               metricTags = tags, state = s', events = evs\<rparr>))"

text \<open>
  \<open>RoundTrip\<close>: the body is wrapped in the size-limited reader, the content-type tag is
  computed, the deferred function is registered, the body above runs, and the deferred
  function emits the metrics, also when the body panicked.
\<close>

definition RoundTrip ::
  "'s evpProxyTransport \<Rightarrow> string \<Rightarrow> request \<Rightarrow> 's \<Rightarrow> 's outcome" where
  "RoundTrip t version req s =
     (let req = limitBody (conf t) req;
          tags = [];
          ct = header_Get (req_Header req) ''Content-Type'';
          tags = (if ct \<noteq> [] then tags @ [''content_type:'' @ ct] else tags);
          out = roundTripBody t version req tags s;
          tags = metricTags out
      in out\<lparr>events := events out @
               [Count ''datadog.trace_agent.evp_proxy.request'' 1 tags,
                Count ''datadog.trace_agent.evp_proxy.request_bytes'' (ContentLength req) tags,
                Timing ''datadog.trace_agent.evp_proxy.request_duration_ms'' tags] @
               (if rerr out \<noteq> None
                then [Count ''datadog.trace_agent.evp_proxy.request_error'' 1 tags]
                else [])\<rparr>)"

subsection \<open>Notions used to state the properties\<close>

text \<open>The four checks of \<open>RoundTrip\<close> pass.\<close>

definition validRequest :: "request \<Rightarrow> bool" where
  "validRequest req =
     (let subdomain = header_Get (req_Header req) ''X-Datadog-EVP-Subdomain''
      in length subdomain \<noteq> 0 \<and> isValidSubdomain subdomain
         \<and> isValidPath (url_Path req) \<and> isValidQueryString (url_RawQuery req))"

text \<open>The error of the first check that fails, in the order of the source.\<close>

definition validationError :: "request \<Rightarrow> error" where
  "validationError req =
     (let subdomain = header_Get (req_Header req) ''X-Datadog-EVP-Subdomain''
      in if length subdomain = 0 then ErrNoSubdomain
         else if \<not> isValidSubdomain subdomain then ErrInvalidSubdomain subdomain
         else if \<not> isValidPath (url_Path req) then ErrInvalidPath (url_Path req)
         else ErrInvalidQuery (url_RawQuery req))"

text \<open>The request after the header rewrite and the scheme assignment.\<close>

definition rewritten :: "agentConfig \<Rightarrow> string \<Rightarrow> request \<Rightarrow> request" where
  "rewritten cfg version req =
     req\<lparr>req_Header :=
           standardHeaders cfg version
             (header_Get (req_Header req) ''Content-Type'')
             (header_Get (req_Header req) ''User-Agent'')
             (header_Get (req_Header req) ''Datadog-Container-ID''),
         url_Scheme := ''https''\<rparr>"

text \<open>The request one iteration of the loop hands to the transport.\<close>

definition newreqFor :: "string \<Rightarrow> request \<Rightarrow> bytes option \<Rightarrow> endpoint \<Rightarrow> request" where
  "newreqFor subdomain req slurp e =
     setTarget subdomain
       (case slurp of None \<Rightarrow> req | Some b \<Rightarrow> req\<lparr>req_Body := Some (Source b None)\<rparr>)
       (Host e) (APIKey e)"

text \<open>What one iteration does with the transport's answer, besides sending.\<close>

fun reaction :: "nat \<Rightarrow> response option \<times> error option \<Rightarrow> event list" where
  "reaction i (resp, Some err) = (if i = 0 then [] else [LogError err])"
| "reaction i (Some resp, None) = (if i = 0 then [] else [Drain resp, Close resp])"
| "reaction i (None, None) = []"

text \<open>The transport's answers to a sequence of requests, from state \<open>s\<close> on.\<close>

fun roundTrips ::
  "'s roundTripper \<Rightarrow> 's \<Rightarrow> request list \<Rightarrow> (response option \<times> error option) list" where
  "roundTrips tr s [] = []"
| "roundTrips tr s (r # rs) = (case tr s r of (x, s') \<Rightarrow> x # roundTrips tr s' rs)"

text \<open>
  The contract of \<open>http.RoundTripper\<close> asks for a response or an error; a transport
  that honours it never answers with both nil.
\<close>

definition honoursContract :: "'s roundTripper \<Rightarrow> bool" where
  "honoursContract tr = (\<forall>s r. fst (tr s r) \<noteq> (None, None))"

definition failures :: "(response option \<times> error option) list \<Rightarrow> error list" where
  "failures rs = List.map_filter snd rs"

definition successes :: "(response option \<times> error option) list \<Rightarrow> response list" where
  "successes rs = List.map_filter (\<lambda>(resp, err). if err = None then resp else None) rs"

text \<open>The tags the deferred function finds in \<open>metricTags\<close>.\<close>

definition subdomainTag :: "request \<Rightarrow> string list" where
  "subdomainTag req =
     (let subdomain = header_Get (req_Header req) ''X-Datadog-EVP-Subdomain''
      in if length subdomain \<noteq> 0 \<and> isValidSubdomain subdomain
         then [''subdomain:'' @ subdomain] else [])"

definition contentTypeTag :: "request \<Rightarrow> string list" where
  "contentTypeTag req =
     (let ct = header_Get (req_Header req) ''Content-Type''
      in if ct \<noteq> [] then [''content_type:'' @ ct] else [])"

subsection \<open>Example transports, configurations and requests\<close>

text \<open>
  The round tripper of the test suite: it reads the body, fails with the read error if
  there is one, and otherwise records the request in \<open>outReqs\<close> and answers 200.
\<close>

definition roundTripperMock :: "request list roundTripper" where
  "roundTripperMock outReqs req =
     (case (case req_Body req of
              None \<Rightarrow> None
            | Some b \<Rightarrow> (case readAll b of Inl err \<Rightarrow> Some err | Inr body \<Rightarrow> None)) of
        Some err \<Rightarrow> ((None, Some err), outReqs)
      | None \<Rightarrow> ((Some \<lparr>StatusCode = 200, resp_Body = ''ok_resprino''\<rparr>, None), outReqs @ [req]))"

text \<open>
  A round tripper that answers before it has read the body, as a server may, and one
  whose second call fails; its state counts the calls.
\<close>

definition earlyResponder :: "unit roundTripper" where
  "earlyResponder u req = ((Some \<lparr>StatusCode = 202, resp_Body = []\<rparr>, None), u)"

definition secondCallFails :: "nat roundTripper" where
  "secondCallFails n req =
     (if n = 1 then ((None, Some (ErrOther ''connection refused'')), Suc n)
      else ((Some \<lparr>StatusCode = 200, resp_Body = ''ok''\<rparr>, None), Suc n))"

text \<open>
  The configuration of the test suite's dual-shipping case, and a request with the
  headers of its happy case, the subdomain given in \<open>X-Datadog-EVP-Subdomain\<close>.
\<close>

definition testConfig :: agentConfig where
  "testConfig =
     \<lparr>EVPProxy = \<lparr>evp_Enabled = True, evp_DDURL = [], evp_APIKey = [],
                   evp_AdditionalEndpoints =
                     [(''datadoghq.eu'', [''test_api_key_1'', ''test_api_key_2''])],
                   evp_MaxPayloadSize = 0\<rparr>,
      Site = ''us3.datadoghq.com'', conf_APIKey = ''test_api_key'',
      Hostname = ''test_hostname'', DefaultEnv = ''test_env'',
      ContainerTags = (\<lambda>cid. ''container:'' @ cid)\<rparr>"

definition testRequest :: request where
  "testRequest =
     \<lparr>req_Host = ''localhost'', url_Scheme = ''http'', url_Host = ''localhost'',
      url_Path = ''/mypath/mysubpath'', url_RawQuery = ''arg=test'',
      req_Header = [''X-Datadog-EVP-Subdomain'' \<mapsto> [''my.subdomain''],
                    ''Content-Type'' \<mapsto> [''text/json''],
                    ''User-Agent'' \<mapsto> [''test_user_agent''],
                    ''Unexpected-Header'' \<mapsto> [''To-Be-Discarded'']],
      req_Body = Some (Source ''payload'' None), ContentLength = 7\<rparr>"

text \<open>The transport of the dual-shipping case and its run on the test request.\<close>

definition testTransport :: "request list evpProxyTransport" where
  "testTransport =
     \<lparr>transport = roundTripperMock,
      endpoints = evpProxyEndpointsFromConfig testConfig, conf = testConfig\<rparr>"

definition dualShippingRun :: "request list outcome" where
  "dualShippingRun = RoundTrip testTransport ''7.40.0'' testRequest []"

text \<open>The same endpoints behind the transport whose second call fails.\<close>

definition flakyTransport :: "nat evpProxyTransport" where
  "flakyTransport =
     \<lparr>transport = secondCallFails,
      endpoints = evpProxyEndpointsFromConfig testConfig, conf = testConfig\<rparr>"

definition flakyRun :: "nat outcome" where
  "flakyRun = RoundTrip flakyTransport ''7.40.0'' testRequest 0"

text \<open>
  The specification's reading of the inbound path, \<open>/<subdomain>/<arbitrary-path>\<close>: the
  first segment of the path, and the remainder that follows it. They are here to be
  compared with what \<open>RoundTrip\<close> does.
\<close>

definition spec_pathSubdomain :: "string \<Rightarrow> string" where
  "spec_pathSubdomain path =
     takeWhile (\<lambda>c. c \<noteq> CHR ''/'')
       (case path of [] \<Rightarrow> [] | c # rest \<Rightarrow> if c = CHR ''/'' then rest else path)"

definition spec_pathRemainder :: "string \<Rightarrow> string" where
  "spec_pathRemainder path =
     dropWhile (\<lambda>c. c \<noteq> CHR ''/'')
       (case path of [] \<Rightarrow> [] | c # rest \<Rightarrow> if c = CHR ''/'' then rest else path)"

text \<open>
  The happy case of the test suite: no additional endpoints, and the request to
  \<open>/my.subdomain/mypath/mysubpath?arg=test\<close> with its three headers, none of which is
  \<open>X-Datadog-EVP-Subdomain\<close>. The body has seven bytes in place of the 1024 random ones.
\<close>

definition happyCaseConfig :: agentConfig where
  "happyCaseConfig =
     testConfig\<lparr>EVPProxy := (EVPProxy testConfig)\<lparr>evp_AdditionalEndpoints := []\<rparr>\<rparr>"

definition happyCaseRequest :: request where
  "happyCaseRequest =
     \<lparr>req_Host = ''example.com'', url_Scheme = [], url_Host = [],
      url_Path = ''/my.subdomain/mypath/mysubpath'', url_RawQuery = ''arg=test'',
      req_Header = [''User-Agent'' \<mapsto> [''test_user_agent''],
                    ''Content-Type'' \<mapsto> [''text/json''],
                    ''Unexpected-Header'' \<mapsto> [''To-Be-Discarded'']],
      req_Body = Some (Source ''payload'' None), ContentLength = 7\<rparr>"

definition happyCaseRun :: "request list outcome" where
  "happyCaseRun =
     RoundTrip \<lparr>transport = roundTripperMock,
                endpoints = evpProxyEndpointsFromConfig happyCaseConfig,
                conf = happyCaseConfig\<rparr>
       ''7.40.0'' happyCaseRequest []"

text \<open>
  A single endpoint, a payload limit of four bytes, and the transport that answers
  before it reads the body; the test request's body has seven bytes.
\<close>

definition limitedConfig :: agentConfig where
  "limitedConfig =
     testConfig\<lparr>EVPProxy := (EVPProxy testConfig)\<lparr>evp_AdditionalEndpoints := [],
                                                  evp_MaxPayloadSize := 4\<rparr>\<rparr>"

definition streamingTransport :: "unit evpProxyTransport" where
  "streamingTransport =
     \<lparr>transport = earlyResponder,
      endpoints = evpProxyEndpointsFromConfig limitedConfig, conf = limitedConfig\<rparr>"

definition oversizeRun :: "unit outcome" where
  "oversizeRun = RoundTrip streamingTransport ''7.40.0'' testRequest ()"

text \<open>The same limit in front of the test suite's round tripper, with one and with three endpoints.\<close>

definition limitedTransport :: "request list evpProxyTransport" where
  "limitedTransport =
     \<lparr>transport = roundTripperMock,
      endpoints = evpProxyEndpointsFromConfig limitedConfig, conf = limitedConfig\<rparr>"

definition limitedDualTransport :: "request list evpProxyTransport" where
  "limitedDualTransport =
     \<lparr>transport = roundTripperMock,
      endpoints = evpProxyEndpointsFromConfig testConfig, conf = limitedConfig\<rparr>"

subsection \<open>Observations\<close>

text \<open>What a run sent, logged, drained and closed, and which of its events are metrics.\<close>

fun sent :: "event list \<Rightarrow> request list" where
  "sent [] = []"
| "sent (Send r # evs) = r # sent evs"
| "sent (_ # evs) = sent evs"

fun logged :: "event list \<Rightarrow> error list" where
  "logged [] = []"
| "logged (LogError e # evs) = e # logged evs"
| "logged (_ # evs) = logged evs"

fun drained :: "event list \<Rightarrow> response list" where
  "drained [] = []"
| "drained (Drain r # evs) = r # drained evs"
| "drained (_ # evs) = drained evs"

fun closed :: "event list \<Rightarrow> response list" where
  "closed [] = []"
| "closed (Close r # evs) = r # closed evs"
| "closed (_ # evs) = closed evs"

fun isMetric :: "event \<Rightarrow> bool" where
  "isMetric (Count name v tags) = True"
| "isMetric (Timing name tags) = True"
| "isMetric _ = False"

subsection \<open>Helper lemmas\<close>

lemma rejected_iff:
  "((c < CHR ''a'' \<or> c > CHR ''z'') \<and> (c < CHR ''A'' \<or> c > CHR ''Z'')
      \<and> (c < CHR ''0'' \<or> c > CHR ''9'') \<and> \<not> containsRune syms c)
   = (\<not> (isLetter c \<or> isDigit c \<or> c \<in> set syms))"
  unfolding isLetter_def isDigit_def containsRune_def not_le [symmetric] by blast

lemma isValidSubdomain_iff:
  "isValidSubdomain s = (\<forall>c\<in>set s. isLetter c \<or> isDigit c \<or> c \<in> set validSubdomainSymbols)"
proof (induction s)
  case Nil
  show ?case by simp
next
  case (Cons c s)
  then show ?case
    by (simp only: isValidSubdomain.simps rejected_iff list.set ball_simps) simp
qed

lemma isValidPath_iff:
  "isValidPath s = (\<forall>c\<in>set s. isLetter c \<or> isDigit c \<or> c \<in> set validPathSymbols)"
proof (induction s)
  case Nil
  show ?case by simp
next
  case (Cons c s)
  then show ?case
    by (simp only: isValidPath.simps rejected_iff list.set ball_simps) simp
qed

lemma isValidQueryString_iff:
  "isValidQueryString s =
     (\<forall>c\<in>set s. isLetter c \<or> isDigit c \<or> c \<in> set validPathQueryStringSymbols)"
proof (induction s)
  case Nil
  show ?case by simp
next
  case (Cons c s)
  then show ?case
    by (simp only: isValidQueryString.simps rejected_iff list.set ball_simps) simp
qed

lemma foldl_append_key:
  "foldl (\<lambda>endpoints key. endpoints @ [\<lparr>Host = host, APIKey = key\<rparr>]) acc keys
     = acc @ map (\<lambda>key. \<lparr>Host = host, APIKey = key\<rparr>) keys"
  by (induction keys arbitrary: acc) simp_all

lemma foldl_append_host:
  "foldl (\<lambda>endpoints (host, keys).
            foldl (\<lambda>endpoints key. endpoints @ [\<lparr>Host = host, APIKey = key\<rparr>]) endpoints keys)
     acc entries
   = acc @ concat (map (\<lambda>(host, keys). map (\<lambda>key. \<lparr>Host = host, APIKey = key\<rparr>) keys) entries)"
  by (induction entries arbitrary: acc) (simp_all add: foldl_append_key split: prod.splits)

lemma forEachEndpoint_Cons:
  "forEachEndpoint tr sub req slurp i (e # es) res s =
     (case tr s (newreqFor sub req slurp e) of
        (r, s') \<Rightarrow>
          if i \<noteq> 0 \<and> r = (None, None)
          then (res, True, s', [Send (newreqFor sub req slurp e)])
          else (case forEachEndpoint tr sub req slurp (Suc i) es (if i = 0 then r else res) s' of
                  (res', p, s'', evs) \<Rightarrow>
                    (res', p, s'', Send (newreqFor sub req slurp e) # reaction i r @ evs)))"
proof -
  obtain resp err s' where "tr s (newreqFor sub req slurp e) = ((resp, err), s')"
    by (metis surj_pair)
  then show ?thesis
    by (cases resp; cases err) (simp_all add: newreqFor_def split: prod.splits)
qed

declare forEachEndpoint.simps(2) [simp del]

lemma sent_append: "sent (xs @ ys) = sent xs @ sent ys"
  by (induction xs rule: sent.induct) simp_all

lemma logged_append: "logged (xs @ ys) = logged xs @ logged ys"
  by (induction xs rule: logged.induct) simp_all

lemma drained_append: "drained (xs @ ys) = drained xs @ drained ys"
  by (induction xs rule: drained.induct) simp_all

lemma closed_append: "closed (xs @ ys) = closed xs @ closed ys"
  by (induction xs rule: closed.induct) simp_all

lemma sent_reaction: "sent (reaction i r) = []"
  by (cases "(i, r)" rule: reaction.cases) simp_all

lemma metric_reaction: "filter isMetric (reaction i r) = []"
  by (cases "(i, r)" rule: reaction.cases) simp_all

lemma logged_reaction: "logged (reaction i r) = (if i = 0 then [] else failures [r])"
  by (cases "(i, r)" rule: reaction.cases) (simp_all add: failures_def List.map_filter_simps)

lemma drained_reaction:
  "r \<noteq> (None, None) \<Longrightarrow> drained (reaction i r) = (if i = 0 then [] else successes [r])"
  by (cases "(i, r)" rule: reaction.cases) (simp_all add: successes_def List.map_filter_simps)

lemma closed_reaction:
  "r \<noteq> (None, None) \<Longrightarrow> closed (reaction i r) = (if i = 0 then [] else successes [r])"
  by (cases "(i, r)" rule: reaction.cases) (simp_all add: successes_def List.map_filter_simps)

lemma failures_Nil [simp]: "failures [] = []"
  by (simp add: failures_def List.map_filter_simps)

lemma successes_Nil [simp]: "successes [] = []"
  by (simp add: successes_def List.map_filter_simps)

lemma failures_Cons: "failures (r # rs) = failures [r] @ failures rs"
  by (simp add: failures_def List.map_filter_simps split: option.splits)

lemma successes_Cons: "successes (r # rs) = successes [r] @ successes rs"
  by (simp add: successes_def List.map_filter_simps split: option.splits)

lemma forEachEndpoint_no_metrics:
  "filter isMetric (snd (snd (snd (forEachEndpoint tr sub req slurp i es res s)))) = []"
proof (induction es arbitrary: i res s)
  case Nil
  show ?case by simp
next
  case (Cons e es)
  obtain r s' where trs: "tr s (newreqFor sub req slurp e) = (r, s')"
    by (cases "tr s (newreqFor sub req slurp e)")
  show ?case
    using Cons.IH [of "Suc i" "if i = 0 then r else res" s'] trs
    by (cases "i = 0") (simp_all add: forEachEndpoint_Cons metric_reaction split_beta)
qed

lemma forEachEndpoint_results:
  assumes "honoursContract tr"
  shows "forEachEndpoint tr sub req slurp i es res s = (res', p, s', evs) \<Longrightarrow>
         res' = (if i = 0 \<and> es \<noteq> [] 
                 then hd (roundTrips tr s (map (newreqFor sub req slurp) es)) else res)
       \<and> \<not> p
       \<and> sent evs = map (newreqFor sub req slurp) es
       \<and> logged evs = failures (drop (1 - i) (roundTrips tr s (map (newreqFor sub req slurp) es)))
       \<and> drained evs = successes (drop (1 - i) (roundTrips tr s (map (newreqFor sub req slurp) es)))
       \<and> closed evs = successes (drop (1 - i) (roundTrips tr s (map (newreqFor sub req slurp) es)))"
proof (induction es arbitrary: i res s res' p s' evs)
  case Nil
  then show ?case by simp
next
  case (Cons e es)
  obtain r s1 where trs: "tr s (newreqFor sub req slurp e) = (r, s1)"
    by (cases "tr s (newreqFor sub req slurp e)")
  then have r: "r \<noteq> (None, None)"
    using assms unfolding honoursContract_def by (metis fst_conv)
  obtain res2 p2 s2 evs2 where rec:
    "forEachEndpoint tr sub req slurp (Suc i) es (if i = 0 then r else res) s1 = (res2, p2, s2, evs2)"
    by (metis prod_cases4)
  note IH = Cons.IH [OF rec]
  have unfold: "res' = res2" "p = p2" "evs = Send (newreqFor sub req slurp e) # reaction i r @ evs2"
    using Cons.prems trs r rec by (simp_all add: forEachEndpoint_Cons)
  show ?case
  proof (cases "i = 0")
    case True
    then show ?thesis using IH unfold trs r
      by (simp add: sent_append logged_append drained_append closed_append sent_reaction
            logged_reaction drained_reaction closed_reaction)
  next
    case False
    then show ?thesis using IH unfold trs r
      by (simp add: sent_append logged_append drained_append closed_append sent_reaction
            logged_reaction drained_reaction closed_reaction
            failures_Cons [of r "roundTrips tr s1 (map (newreqFor sub req slurp) es)"]
            successes_Cons [of r "roundTrips tr s1 (map (newreqFor sub req slurp) es)"])
  qed
qed

lemma limitBody_fields [simp]:
  "req_Header (limitBody cfg req) = req_Header req"
  "url_Path (limitBody cfg req) = url_Path req"
  "url_RawQuery (limitBody cfg req) = url_RawQuery req"
  "ContentLength (limitBody cfg req) = ContentLength req"
  by (simp_all add: limitBody_def split: option.splits)

lemma limitBody_valid [simp]:
  "validRequest (limitBody cfg req) = validRequest req"
  "validationError (limitBody cfg req) = validationError req"
  "subdomainTag (limitBody cfg req) = subdomainTag req"
  "contentTypeTag (limitBody cfg req) = contentTypeTag req"
  by (simp_all add: validRequest_def validationError_def subdomainTag_def contentTypeTag_def Let_def)

lemma slurpBody_cong: "req_Body r = req_Body r' \<Longrightarrow> slurpBody r = slurpBody r'"
  by (simp add: slurpBody_def)

lemma roundTripBody_invalid:
  assumes "\<not> validRequest req"
  shows "roundTripBody t version req tags s =
           \<lparr>rresp = None, rerr = Some (validationError req), panicked = False,
            metricTags = tags @ subdomainTag req, state = s, events = []\<rparr>"
  using assms
  by (auto simp add: roundTripBody_def validRequest_def validationError_def subdomainTag_def Let_def)

lemma roundTripBody_single:
  assumes "validRequest req" and "endpoints t = [e]"
  shows "roundTripBody t version req tags s =
           (case transport t s
                   (setTarget (header_Get (req_Header req) ''X-Datadog-EVP-Subdomain'')
                      (rewritten (conf t) version req) (Host e) (APIKey e)) of
              ((resp, err), s') \<Rightarrow>
                \<lparr>rresp = resp, rerr = err, panicked = False,
                 metricTags = tags @ subdomainTag req, state = s',
                 events = [Send (setTarget (header_Get (req_Header req) ''X-Datadog-EVP-Subdomain'')
                                   (rewritten (conf t) version req) (Host e) (APIKey e))]\<rparr>)"
  using assms
  by (simp add: roundTripBody_def validRequest_def subdomainTag_def rewritten_def Let_def)

lemma roundTripBody_unreadable:
  assumes "validRequest req" and "length (endpoints t) \<noteq> 1" and "slurpBody req = Inl err"
  shows "roundTripBody t version req tags s =
           \<lparr>rresp = None, rerr = Some err, panicked = False,
            metricTags = tags @ subdomainTag req, state = s, events = []\<rparr>"
proof -
  have "slurpBody (req\<lparr>req_Header := h, url_Scheme := sch\<rparr>) = Inl err" for h sch
    using assms(3) slurpBody_cong [of "req\<lparr>req_Header := h, url_Scheme := sch\<rparr>" req] by simp
  then show ?thesis
    using assms(1,2)
    by (simp add: roundTripBody_def validRequest_def subdomainTag_def Let_def)
qed

lemma roundTripBody_fanout:
  assumes "validRequest req" and "length (endpoints t) \<noteq> 1" and "slurpBody req = Inr slurp"
  shows "roundTripBody t version req tags s =
           (case forEachEndpoint (transport t)
                   (header_Get (req_Header req) ''X-Datadog-EVP-Subdomain'')
                   (rewritten (conf t) version req) slurp 0 (endpoints t) (None, None) s of
              ((resp, err), p, s', evs) \<Rightarrow>
                \<lparr>rresp = resp, rerr = err, panicked = p,
                 metricTags = tags @ subdomainTag req, state = s', events = evs\<rparr>)"
proof -
  have "slurpBody (req\<lparr>req_Header := h, url_Scheme := sch\<rparr>) = Inr slurp" for h sch
    using assms(3) slurpBody_cong [of "req\<lparr>req_Header := h, url_Scheme := sch\<rparr>" req] by simp
  then show ?thesis
    using assms(1,2)
    by (simp add: roundTripBody_def validRequest_def subdomainTag_def rewritten_def Let_def)
qed

lemma RoundTrip_unfold:
  "RoundTrip t version req s =
     (let out = roundTripBody t version (limitBody (conf t) req) (contentTypeTag req) s
      in out\<lparr>events := events out @
               [Count ''datadog.trace_agent.evp_proxy.request'' 1 (metricTags out),
                Count ''datadog.trace_agent.evp_proxy.request_bytes'' (ContentLength req)
                  (metricTags out),
                Timing ''datadog.trace_agent.evp_proxy.request_duration_ms'' (metricTags out)] @
               (if rerr out \<noteq> None
                then [Count ''datadog.trace_agent.evp_proxy.request_error'' 1 (metricTags out)]
                else [])\<rparr>)"
  by (simp add: RoundTrip_def contentTypeTag_def Let_def)

lemma forEachEndpoint_sent_prefix:
  "\<exists>n\<le>length es. (es \<noteq> [] \<longrightarrow> 0 < n) \<and>
      sent (snd (snd (snd (forEachEndpoint tr sub req slurp i es res s))))
        = map (newreqFor sub req slurp) (take n es)"
proof (induction es arbitrary: i res s)
  case Nil
  show ?case by simp
next
  case (Cons e es)
  obtain r s' where trs: "tr s (newreqFor sub req slurp e) = (r, s')"
    by (cases "tr s (newreqFor sub req slurp e)")
  show ?case
  proof (cases "i \<noteq> 0 \<and> r = (None, None)")
    case True
    then have "sent (snd (snd (snd (forEachEndpoint tr sub req slurp i (e # es) res s))))
       = map (newreqFor sub req slurp) (take 1 (e # es))"
      using trs by (simp add: forEachEndpoint_Cons)
    then show ?thesis by (intro exI[of _ 1]) simp
  next
    case False
    obtain n where n: "n \<le> length es"
      "sent (snd (snd (snd (forEachEndpoint tr sub req slurp (Suc i) es
                              (if i = 0 then r else res) s'))))
         = map (newreqFor sub req slurp) (take n es)"
      using Cons.IH [of "Suc i" "if i = 0 then r else res" s'] by (elim exE conjE)
    have "sent (snd (snd (snd (forEachEndpoint tr sub req slurp i (e # es) res s))))
       = map (newreqFor sub req slurp) (take (Suc n) (e # es))"
      using n(2) trs False
      by (cases "i = 0") (simp_all add: forEachEndpoint_Cons sent_append sent_reaction split_beta)
    then show ?thesis using n(1) by (intro exI[of _ "Suc n"]) simp
  qed
qed

lemma sent_metrics [simp]:
  "sent (evs @ Count a b c # Count d e f # Timing g h # (if P then [Count i j k] else [])) = sent evs"
  by (simp add: sent_append)

lemma RoundTrip_sent:
  "\<exists>n slurp. n \<le> length (endpoints t)
      \<and> sent (events (RoundTrip t version req s))
          = map (newreqFor (header_Get (req_Header req) ''X-Datadog-EVP-Subdomain'')
                   (rewritten (conf t) version (limitBody (conf t) req)) slurp)
              (take n (endpoints t))
      \<and> (validRequest req \<and> endpoints t \<noteq> []
           \<and> (length (endpoints t) = 1 \<or> (\<exists>sl. slurpBody (limitBody (conf t) req) = Inr sl))
          \<longrightarrow> 0 < n)
      \<and> (validRequest req
           \<and> (length (endpoints t) = 1
               \<or> (\<exists>sl. slurpBody (limitBody (conf t) req) = Inr sl) \<and> honoursContract (transport t))
          \<longrightarrow> n = length (endpoints t))"
proof (cases "validRequest req")
  case False
  then have "sent (events (RoundTrip t version req s)) = []"
    by (simp add: RoundTrip_unfold roundTripBody_invalid Let_def)
  then show ?thesis using False by (intro exI[of _ 0]) simp
next
  case valid: True
  let ?sub = "header_Get (req_Header req) ''X-Datadog-EVP-Subdomain''"
  let ?lim = "limitBody (conf t) req"
  let ?rw = "rewritten (conf t) version ?lim"
  have valid': "validRequest ?lim" using valid by simp
  show ?thesis
  proof (cases "length (endpoints t) = 1")
    case True
    then obtain e where e: "endpoints t = [e]" by (auto simp: length_Suc_conv)
    have "sent (events (RoundTrip t version req s)) = map (newreqFor ?sub ?rw None) (take 1 (endpoints t))"
      using e by (simp add: RoundTrip_unfold roundTripBody_single [OF valid' e] Let_def
            newreqFor_def split_beta)
    then show ?thesis using True by (intro exI[of _ 1] exI[of _ None]) simp
  next
    case multi: False
    show ?thesis
    proof (cases "slurpBody ?lim")
      case (Inl err)
      then have "sent (events (RoundTrip t version req s)) = []"
        using multi
        by (simp add: RoundTrip_unfold roundTripBody_unreadable [OF valid' multi Inl] Let_def)
      then show ?thesis using multi Inl by (intro exI[of _ 0]) simp
    next
      case (Inr slurp)
      let ?loop = "forEachEndpoint (transport t) ?sub ?rw slurp 0 (endpoints t) (None, None) s"
      have ev: "sent (events (RoundTrip t version req s)) = sent (snd (snd (snd ?loop)))"
        by (simp add: RoundTrip_unfold roundTripBody_fanout [OF valid' multi Inr] Let_def split_beta)
      obtain n where n: "n \<le> length (endpoints t)" "endpoints t \<noteq> [] \<longrightarrow> 0 < n"
        "sent (snd (snd (snd ?loop))) = map (newreqFor ?sub ?rw slurp) (take n (endpoints t))"
        using forEachEndpoint_sent_prefix
                [where es = "endpoints t" and tr = "transport t" and sub = ?sub and req = ?rw
                   and slurp = slurp and i = 0 and res = "(None, None)" and s = s]
        by (elim exE conjE)
      show ?thesis
      proof (cases "honoursContract (transport t)")
        case True
        obtain res' p s' evs where loop: "?loop = (res', p, s', evs)"
          by (metis prod_cases4)
        have "sent (snd (snd (snd ?loop))) = map (newreqFor ?sub ?rw slurp) (endpoints t)"
          using forEachEndpoint_results [OF True loop] loop by simp
        then show ?thesis using ev
          by (intro exI[of _ "length (endpoints t)"] exI[of _ slurp]) simp
      next
        case False
        then show ?thesis using ev n multi
          by (intro exI[of _ n] exI[of _ slurp]) simp
      qed
    qed
  qed
qed

lemma newreqFor_fields [simp]:
  "req_Host (newreqFor sub r slurp e) = sub @ ''.'' @ Host e"
  "url_Host (newreqFor sub r slurp e) = sub @ ''.'' @ Host e"
  "url_Scheme (newreqFor sub r slurp e) = url_Scheme r"
  "url_Path (newreqFor sub r slurp e) = url_Path r"
  "url_RawQuery (newreqFor sub r slurp e) = url_RawQuery r"
  "req_Header (newreqFor sub r slurp e) = header_Set (req_Header r) ''DD-API-KEY'' (APIKey e)"
  by (simp_all add: newreqFor_def setTarget_def Let_def split: option.splits)

lemma rewritten_fields [simp]:
  "url_Scheme (rewritten cfg version r) = ''https''"
  "url_Path (rewritten cfg version r) = url_Path r"
  "url_RawQuery (rewritten cfg version r) = url_RawQuery r"
  "req_Header (rewritten cfg version r) =
     standardHeaders cfg version (header_Get (req_Header r) ''Content-Type'')
       (header_Get (req_Header r) ''User-Agent'') (header_Get (req_Header r) ''Datadog-Container-ID'')"
  by (simp_all add: rewritten_def)

lemma roundTripBody_metrics:
  "metricTags (roundTripBody t version req tags s) = tags @ subdomainTag req
   \<and> filter isMetric (events (roundTripBody t version req tags s)) = []"
proof (cases "validRequest req")
  case False
  then show ?thesis by (simp add: roundTripBody_invalid)
next
  case valid: True
  show ?thesis
  proof (cases "length (endpoints t) = 1")
    case True
    then obtain e where e: "endpoints t = [e]" by (auto simp: length_Suc_conv)
    show ?thesis by (simp add: roundTripBody_single [OF valid e] split_beta)
  next
    case multi: False
    show ?thesis
    proof (cases "slurpBody req")
      case (Inl err)
      show ?thesis by (simp add: roundTripBody_unreadable [OF valid multi Inl])
    next
      case (Inr slurp)
      show ?thesis
        by (simp add: roundTripBody_fanout [OF valid multi Inr] split_beta
              forEachEndpoint_no_metrics)
    qed
  qed
qed

lemmas run_simps =
  dualShippingRun_def testTransport_def testConfig_def testRequest_def roundTripperMock_def
  RoundTrip_def roundTripBody_def forEachEndpoint.simps(2) limitBody_def slurpBody_def readAll_def
  evpProxyEndpointsFromConfig_def standardHeaders_def setTarget_def header_Get_def header_Set_def
  getContainerTags_def containsRune_def validSubdomainSymbols_def validPathSymbols_def
  validPathQueryStringSymbols_def Let_def

lemma testTransport_fields:
  "endpoints testTransport =
     [\<lparr>Host = ''us3.datadoghq.com'', APIKey = ''test_api_key''\<rparr>,
      \<lparr>Host = ''datadoghq.eu'', APIKey = ''test_api_key_1''\<rparr>,
      \<lparr>Host = ''datadoghq.eu'', APIKey = ''test_api_key_2''\<rparr>]"
  "conf testTransport = testConfig" "transport testTransport = roundTripperMock"
  by (simp_all add: testTransport_def evpProxyEndpointsFromConfig_def testConfig_def Let_def)

lemma roundTripperMock_contract: "honoursContract roundTripperMock"
  by (simp add: honoursContract_def roundTripperMock_def split: option.splits sum.splits)

lemma standardHeaders_lookup:
  "standardHeaders cfg version contentType userAgent containerID k =
     (if k = ''X-Datadog-AgentDefaultEnv'' then Some [DefaultEnv cfg]
      else if k = ''X-Datadog-Hostname'' then Some [Hostname cfg]
      else if k = ''X-Datadog-Container-Tags''
        then (if getContainerTags (ContainerTags cfg) containerID \<noteq> []
              then Some [getContainerTags (ContainerTags cfg) containerID] else None)
      else if k = ''User-Agent'' then Some [userAgent]
      else if k = ''Content-Type'' then (if contentType \<noteq> [] then Some [contentType] else None)
      else if k = ''Via'' then Some [''trace-agent '' @ version]
      else None)"
  by (simp add: standardHeaders_def header_Set_def Let_def)

lemma testRequest_valid: "validRequest testRequest"
  by (simp add: validRequest_def testRequest_def header_Get_def containsRune_def
        validSubdomainSymbols_def validPathSymbols_def validPathQueryStringSymbols_def)

lemma testRequest_slurp:
  "slurpBody (limitBody (conf testTransport) testRequest) = Inr (Some ''payload'')"
  by (simp add: testTransport_fields testConfig_def testRequest_def limitBody_def slurpBody_def
        readAll_def)

lemma logged_metrics [simp]:
  "logged (evs @ Count a b c # Count d e f # Timing g h # (if P then [Count i j k] else []))
     = logged evs"
  by (simp add: logged_append)

lemma drained_metrics [simp]:
  "drained (evs @ Count a b c # Count d e f # Timing g h # (if P then [Count i j k] else []))
     = drained evs"
  by (simp add: drained_append)

lemma closed_metrics [simp]:
  "closed (evs @ Count a b c # Count d e f # Timing g h # (if P then [Count i j k] else []))
     = closed evs"
  by (simp add: closed_append)

lemma length_roundTrips [simp]: "length (roundTrips tr s reqs) = length reqs"
  by (induction reqs arbitrary: s) (simp_all add: split_beta)

lemma flakyTransport_fields:
  "endpoints flakyTransport =
     [\<lparr>Host = ''us3.datadoghq.com'', APIKey = ''test_api_key''\<rparr>,
      \<lparr>Host = ''datadoghq.eu'', APIKey = ''test_api_key_1''\<rparr>,
      \<lparr>Host = ''datadoghq.eu'', APIKey = ''test_api_key_2''\<rparr>]"
  "conf flakyTransport = testConfig" "transport flakyTransport = secondCallFails"
  by (simp_all add: flakyTransport_def evpProxyEndpointsFromConfig_def testConfig_def Let_def)

lemma secondCallFails_contract: "honoursContract secondCallFails"
  by (simp add: honoursContract_def secondCallFails_def)

lemma testRequest_checks:
  "''my.subdomain'' = header_Get (req_Header testRequest) ''X-Datadog-EVP-Subdomain''"
  "''my.subdomain'' \<noteq> []" "isValidSubdomain ''my.subdomain''"
  "isValidPath (url_Path testRequest)" "isValidQueryString (url_RawQuery testRequest)"
  by (simp_all add: testRequest_def header_Get_def containsRune_def validSubdomainSymbols_def
        validPathSymbols_def validPathQueryStringSymbols_def)

lemma dualShippingRun_primary:
  "sent (events dualShippingRun) \<noteq> []
   \<and> req_Host (sent (events dualShippingRun) ! 0) = ''my.subdomain.us3.datadoghq.com''
   \<and> url_Path (sent (events dualShippingRun) ! 0) = ''/mypath/mysubpath''"
  by (simp add: run_simps)

lemma body_fields [simp]:
  "req_Body (setTarget sub r host key) = req_Body r"
  "req_Body (rewritten cfg version r) = req_Body r"
  by (simp_all add: setTarget_def rewritten_def Let_def)

lemma limitBody_body:
  "req_Body req = Some b \<Longrightarrow> 0 < evp_MaxPayloadSize (EVPProxy cfg) \<Longrightarrow>
   req_Body (limitBody cfg req) = Some (LimitedReader b (evp_MaxPayloadSize (EVPProxy cfg)))"
  by (simp add: limitBody_def)

lemma readAll_over_limit:
  "limit < int (length (fst (delivered b))) \<Longrightarrow>
   readAll (LimitedReader b limit) = Inl ErrLimitedReaderLimitReached"
  by (simp add: readAll_def split_beta)

lemma oversizeRun_eval:
  "rresp oversizeRun = Some \<lparr>StatusCode = 202, resp_Body = []\<rparr>
   \<and> rerr oversizeRun = None
   \<and> length (sent (events oversizeRun)) = 1"
  by (simp add: oversizeRun_def streamingTransport_def limitedConfig_def earlyResponder_def
        run_simps)

lemma limitedTransport_fields:
  "endpoints limitedTransport = [\<lparr>Host = ''us3.datadoghq.com'', APIKey = ''test_api_key''\<rparr>]"
  "conf limitedTransport = limitedConfig" "transport limitedTransport = roundTripperMock"
  "endpoints limitedDualTransport =
     [\<lparr>Host = ''us3.datadoghq.com'', APIKey = ''test_api_key''\<rparr>,
      \<lparr>Host = ''datadoghq.eu'', APIKey = ''test_api_key_1''\<rparr>,
      \<lparr>Host = ''datadoghq.eu'', APIKey = ''test_api_key_2''\<rparr>]"
  "conf limitedDualTransport = limitedConfig" "transport limitedDualTransport = roundTripperMock"
  "evp_MaxPayloadSize (EVPProxy limitedConfig) = 4"
  by (simp_all add: limitedTransport_def limitedDualTransport_def limitedConfig_def
        evpProxyEndpointsFromConfig_def testConfig_def Let_def)

section \<open>The properties\<close>

subsection \<open>Validators\<close>

text \<open>
  Claim C4. Each validator is membership of every character in the allowlist of its
  field: letters, digits and \<open>_ - .\<close> for the subdomain; letters, digits and
  \<open>/ _ - +\<close> for the path; letters, digits and \<open>/ _ - + @ ? & = . :\<close> and the double
  quote for the query string. An empty subdomain fails validation too: \<open>RoundTrip\<close>
  answers it with an error and no response.
\<close>

theorem validators_are_allowlists:
  "(isValidSubdomain s =
      (\<forall>c\<in>set s. isLetter c \<or> isDigit c \<or> c = CHR ''_'' \<or> c = CHR ''-'' \<or> c = CHR ''.''))
   \<and> (isValidPath p =
      (\<forall>c\<in>set p. isLetter c \<or> isDigit c
          \<or> c = CHR ''/'' \<or> c = CHR ''_'' \<or> c = CHR ''-'' \<or> c = CHR ''+''))
   \<and> (isValidQueryString q =
      (\<forall>c\<in>set q. isLetter c \<or> isDigit c
          \<or> c = CHR ''/'' \<or> c = CHR ''_'' \<or> c = CHR ''-'' \<or> c = CHR ''+'' \<or> c = CHR ''@''
          \<or> c = CHR ''?'' \<or> c = CHR ''&'' \<or> c = CHR ''='' \<or> c = CHR ''.'' \<or> c = CHR '':''
          \<or> c = CHR 0x22))
   \<and> (header_Get (req_Header req) ''X-Datadog-EVP-Subdomain'' = [] \<longrightarrow>
        rresp (RoundTrip t version req st) = None
        \<and> rerr (RoundTrip t version req st) = Some ErrNoSubdomain)"
proof -
  have "\<not> validRequest req" if "header_Get (req_Header req) ''X-Datadog-EVP-Subdomain'' = []"
    using that by (simp add: validRequest_def)
  moreover have "validationError req = ErrNoSubdomain"
    if "header_Get (req_Header req) ''X-Datadog-EVP-Subdomain'' = []"
    using that by (simp add: validationError_def)
  ultimately show ?thesis
    by (simp add: isValidSubdomain_iff isValidPath_iff isValidQueryString_iff
          validSubdomainSymbols_def validPathSymbols_def validPathQueryStringSymbols_def
          RoundTrip_unfold roundTripBody_invalid Let_def)
qed

theorem validators_are_allowlists_witness:
  "isValidSubdomain ''my.subdomain'' \<and> \<not> isValidSubdomain ''google.com%3Fattack=''
   \<and> isValidPath ''/mypath/mysubpath'' \<and> \<not> isValidPath ''/mypath/my subpath''
   \<and> isValidQueryString ''arg=test'' \<and> \<not> isValidQueryString ''test=bad arg''
   \<and> rerr (RoundTrip \<lparr>transport = roundTripperMock,
                       endpoints = evpProxyEndpointsFromConfig testConfig, conf = testConfig\<rparr>
              ''7.40.0'' (testRequest\<lparr>req_Header := Map.empty\<rparr>) []) = Some ErrNoSubdomain"
  using validators_are_allowlists [of "''my.subdomain''" "''/mypath/mysubpath''" "''arg=test''"
          "testRequest\<lparr>req_Header := Map.empty\<rparr>"
          "\<lparr>transport = roundTripperMock,
            endpoints = evpProxyEndpointsFromConfig testConfig, conf = testConfig\<rparr>" "''7.40.0''" "[]"]
        validators_are_allowlists [of "''google.com%3Fattack=''" "''/mypath/my subpath''"
          "''test=bad arg''" "testRequest\<lparr>req_Header := Map.empty\<rparr>"
          "\<lparr>transport = roundTripperMock,
            endpoints = evpProxyEndpointsFromConfig testConfig, conf = testConfig\<rparr>" "''7.40.0''" "[]"]
  by (simp add: isLetter_def isDigit_def header_Get_def)

subsection \<open>Endpoint resolution\<close>

text \<open>
  Claim C8. For every configuration the resolver returns a non-empty list: first the
  default endpoint, whose host is the override host if that is not empty and the site
  otherwise, and whose API key is the override key if that is not empty and the
  baseline key otherwise; then one endpoint for every host and key of the additional
  endpoints, carrying that host and key, in the order of enumeration.
\<close>

theorem endpoints_from_config:
  "evpProxyEndpointsFromConfig cfg =
     \<lparr>Host = (if evp_DDURL (EVPProxy cfg) \<noteq> [] then evp_DDURL (EVPProxy cfg) else Site cfg),
      APIKey = (if evp_APIKey (EVPProxy cfg) \<noteq> [] then evp_APIKey (EVPProxy cfg)
                else conf_APIKey cfg)\<rparr>
     # concat (map (\<lambda>(host, keys). map (\<lambda>key. \<lparr>Host = host, APIKey = key\<rparr>) keys)
                 (evp_AdditionalEndpoints (EVPProxy cfg)))"
  by (simp add: evpProxyEndpointsFromConfig_def foldl_append_host Let_def)

theorem endpoints_from_config_witness:
  "evpProxyEndpointsFromConfig testConfig =
     [\<lparr>Host = ''us3.datadoghq.com'', APIKey = ''test_api_key''\<rparr>,
      \<lparr>Host = ''datadoghq.eu'', APIKey = ''test_api_key_1''\<rparr>,
      \<lparr>Host = ''datadoghq.eu'', APIKey = ''test_api_key_2''\<rparr>]
   \<and> evpProxyEndpointsFromConfig
        (testConfig\<lparr>EVPProxy := (EVPProxy testConfig)\<lparr>evp_DDURL := ''override.datadoghq.com'',
            evp_APIKey := ''override_api_key'', evp_AdditionalEndpoints := []\<rparr>\<rparr>) =
     [\<lparr>Host = ''override.datadoghq.com'', APIKey = ''override_api_key''\<rparr>]"
  using endpoints_from_config [of testConfig]
        endpoints_from_config [of "testConfig\<lparr>EVPProxy := (EVPProxy testConfig)\<lparr>evp_DDURL := ''override.datadoghq.com'',
            evp_APIKey := ''override_api_key'', evp_AdditionalEndpoints := []\<rparr>\<rparr>"]
  by (simp add: testConfig_def)

subsection \<open>Rejection before any send\<close>

text \<open>
  Claim C1. When the subdomain is empty or fails \<open>isValidSubdomain\<close>, or the path fails
  \<open>isValidPath\<close>, or the query string fails \<open>isValidQueryString\<close>, \<open>RoundTrip\<close> returns
  a nil response and the error of the first failing check, whose message names the
  field; no request is handed to the underlying transport, whose state is untouched.
\<close>

theorem invalid_request_never_sent:
  assumes "subdomain = header_Get (req_Header req) ''X-Datadog-EVP-Subdomain''"
    and "subdomain = [] \<or> \<not> isValidSubdomain subdomain
         \<or> \<not> isValidPath (url_Path req) \<or> \<not> isValidQueryString (url_RawQuery req)"
    and "out = RoundTrip t version req s"
  shows "rresp out = None
       \<and> rerr out = Some (if subdomain = [] then ErrNoSubdomain
                          else if \<not> isValidSubdomain subdomain then ErrInvalidSubdomain subdomain
                          else if \<not> isValidPath (url_Path req) then ErrInvalidPath (url_Path req)
                          else ErrInvalidQuery (url_RawQuery req))
       \<and> errorString (the (rerr out)) =
           (if subdomain = [] then ''EVPProxy: no subdomain specified''
            else if \<not> isValidSubdomain subdomain then ''EVPProxy: invalid subdomain: '' @ subdomain
            else if \<not> isValidPath (url_Path req)
              then ''EVPProxy: invalid target path: '' @ url_Path req
            else ''EVPProxy: invalid query string: '' @ url_RawQuery req)
       \<and> sent (events out) = [] \<and> state out = s \<and> \<not> panicked out"
proof -
  have inv: "\<not> validRequest (limitBody (conf t) req)"
    using assms(1,2) by (auto simp add: validRequest_def)
  have err: "validationError req =
               (if subdomain = [] then ErrNoSubdomain
                else if \<not> isValidSubdomain subdomain then ErrInvalidSubdomain subdomain
                else if \<not> isValidPath (url_Path req) then ErrInvalidPath (url_Path req)
                else ErrInvalidQuery (url_RawQuery req))"
    using assms(1) by (simp add: validationError_def)
  have out: "rresp out = None" "rerr out = Some (validationError req)"
    "sent (events out) = []" "state out = s" "\<not> panicked out"
    unfolding assms(3) by (simp_all add: RoundTrip_unfold roundTripBody_invalid [OF inv] Let_def)
  show ?thesis
    using out assms(2) unfolding err by auto
qed

theorem invalid_request_never_sent_witness:
  "rresp (RoundTrip \<lparr>transport = roundTripperMock,
                     endpoints = evpProxyEndpointsFromConfig testConfig, conf = testConfig\<rparr>
            ''7.40.0'' (testRequest\<lparr>url_Path := ''/mypath/my subpath''\<rparr>) []) = None
   \<and> rerr (RoundTrip \<lparr>transport = roundTripperMock,
                     endpoints = evpProxyEndpointsFromConfig testConfig, conf = testConfig\<rparr>
            ''7.40.0'' (testRequest\<lparr>url_Path := ''/mypath/my subpath''\<rparr>) [])
       = Some (ErrInvalidPath ''/mypath/my subpath'')
   \<and> sent (events (RoundTrip \<lparr>transport = roundTripperMock,
                     endpoints = evpProxyEndpointsFromConfig testConfig, conf = testConfig\<rparr>
            ''7.40.0'' (testRequest\<lparr>url_Path := ''/mypath/my subpath''\<rparr>) [])) = []
   \<and> state (RoundTrip \<lparr>transport = roundTripperMock,
                     endpoints = evpProxyEndpointsFromConfig testConfig, conf = testConfig\<rparr>
            ''7.40.0'' (testRequest\<lparr>url_Path := ''/mypath/my subpath''\<rparr>) []) = []"
proof -
  have sub: "''my.subdomain'' = header_Get (req_Header (testRequest\<lparr>url_Path := ''/mypath/my subpath''\<rparr>))
                ''X-Datadog-EVP-Subdomain''"
    by (simp add: testRequest_def header_Get_def)
  have bad: "''my.subdomain'' = [] \<or> \<not> isValidSubdomain ''my.subdomain''
         \<or> \<not> isValidPath (url_Path (testRequest\<lparr>url_Path := ''/mypath/my subpath''\<rparr>))
         \<or> \<not> isValidQueryString (url_RawQuery (testRequest\<lparr>url_Path := ''/mypath/my subpath''\<rparr>))"
    by (simp add: containsRune_def validPathSymbols_def)
  show ?thesis
    using invalid_request_never_sent
            [where t = "\<lparr>transport = roundTripperMock,
                      endpoints = evpProxyEndpointsFromConfig testConfig, conf = testConfig\<rparr>"
               and version = "''7.40.0''" and s = "[]", OF sub bad refl]
    by (simp add: containsRune_def validPathSymbols_def validSubdomainSymbols_def)
qed

subsection \<open>The outbound target\<close>

text \<open>
  Claim C2. For a request that passes validation, the request sent for the \<open>i\<close>-th
  endpoint has \<open>Host\<close> and \<open>URL.Host\<close> equal to the subdomain, a dot and the endpoint's
  host, the scheme \<open>https\<close>, and the inbound path and raw query unchanged. A request is
  sent for every endpoint when there is a single endpoint, or when the body can be
  buffered and the transport honours its contract.
\<close>

theorem outbound_target:
  assumes "out = RoundTrip t version req s"
    and "subdomain = header_Get (req_Header req) ''X-Datadog-EVP-Subdomain''"
    and "subdomain \<noteq> []" and "isValidSubdomain subdomain"
    and "isValidPath (url_Path req)" and "isValidQueryString (url_RawQuery req)"
    and "sends = sent (events out)"
  shows "length sends \<le> length (endpoints t)
       \<and> (\<forall>i<length sends.
            req_Host (sends ! i) = subdomain @ ''.'' @ Host (endpoints t ! i)
          \<and> url_Host (sends ! i) = subdomain @ ''.'' @ Host (endpoints t ! i)
          \<and> url_Scheme (sends ! i) = ''https''
          \<and> url_Path (sends ! i) = url_Path req
          \<and> url_RawQuery (sends ! i) = url_RawQuery req)
       \<and> (length (endpoints t) = 1
            \<or> (\<exists>slurp. slurpBody (limitBody (conf t) req) = Inr slurp)
               \<and> honoursContract (transport t)
          \<longrightarrow> length sends = length (endpoints t))"
proof -
  have valid: "validRequest req"
    using assms(2-6) by (simp add: validRequest_def)
  obtain n slurp where n: "n \<le> length (endpoints t)"
    and sends: "sends = map (newreqFor subdomain
                   (rewritten (conf t) version (limitBody (conf t) req)) slurp)
                 (take n (endpoints t))"
    and full: "validRequest req
           \<and> (length (endpoints t) = 1
               \<or> (\<exists>sl. slurpBody (limitBody (conf t) req) = Inr sl) \<and> honoursContract (transport t))
          \<longrightarrow> n = length (endpoints t)"
    using RoundTrip_sent [of t version req s] unfolding assms(1,2,7) by (elim exE conjE)
  have len: "length sends = n" using n sends by simp
  show ?thesis
    using n full valid unfolding len by (simp add: sends)
qed

theorem outbound_target_witness:
  "length (sent (events dualShippingRun)) = 3
   \<and> req_Host (sent (events dualShippingRun) ! 0) = ''my.subdomain.us3.datadoghq.com''
   \<and> url_Host (sent (events dualShippingRun) ! 1) = ''my.subdomain.datadoghq.eu''
   \<and> url_Host (sent (events dualShippingRun) ! 2) = ''my.subdomain.datadoghq.eu''
   \<and> url_Scheme (sent (events dualShippingRun) ! 2) = ''https''
   \<and> url_Path (sent (events dualShippingRun) ! 2) = ''/mypath/mysubpath''
   \<and> url_RawQuery (sent (events dualShippingRun) ! 2) = ''arg=test''"
proof -
  have sub: "''my.subdomain'' = header_Get (req_Header testRequest) ''X-Datadog-EVP-Subdomain''"
    by (simp add: testRequest_def header_Get_def)
  have ok: "''my.subdomain'' \<noteq> []" "isValidSubdomain ''my.subdomain''"
    "isValidPath (url_Path testRequest)" "isValidQueryString (url_RawQuery testRequest)"
    by (simp_all add: testRequest_def containsRune_def validSubdomainSymbols_def
          validPathSymbols_def validPathQueryStringSymbols_def)
  have slurp: "slurpBody (limitBody (conf testTransport) testRequest) = Inr (Some ''payload'')"
    by (simp add: testTransport_fields testConfig_def testRequest_def limitBody_def slurpBody_def
          readAll_def)
  note target = outbound_target [where t = testTransport and version = "''7.40.0''"
      and req = testRequest and s = "[]", OF dualShippingRun_def sub ok refl]
  have len: "length (sent (events dualShippingRun)) = 3"
    using target slurp roundTripperMock_contract by (simp add: testTransport_fields)
  show ?thesis
    using target unfolding len by (simp add: testTransport_fields testRequest_def numeral_3_eq_3 numeral_2_eq_2 less_Suc_eq all_conj_distrib)
qed

subsection \<open>Metrics\<close>

text \<open>
  Claim C9. Every call of \<open>RoundTrip\<close>, whatever its outcome and however many endpoints
  there are, emits exactly one request counter, one request-size counter carrying the
  request's content length, and one duration timing, and one more error counter exactly
  when the error result is not nil. All of them carry the same tags: \<open>content_type\<close> if
  the inbound content type is not empty, then \<open>subdomain\<close> if the subdomain passed its
  two checks.
\<close>

theorem metrics_once_per_call:
  assumes "out = RoundTrip t version req s"
    and "subdomain = header_Get (req_Header req) ''X-Datadog-EVP-Subdomain''"
    and "contentType = header_Get (req_Header req) ''Content-Type''"
    and "tags = (if contentType \<noteq> [] then [''content_type:'' @ contentType] else [])
              @ (if subdomain \<noteq> [] \<and> isValidSubdomain subdomain
                 then [''subdomain:'' @ subdomain] else [])"
  shows "filter isMetric (events out) =
           [Count ''datadog.trace_agent.evp_proxy.request'' 1 tags,
            Count ''datadog.trace_agent.evp_proxy.request_bytes'' (ContentLength req) tags,
            Timing ''datadog.trace_agent.evp_proxy.request_duration_ms'' tags]
           @ (if rerr out \<noteq> None
              then [Count ''datadog.trace_agent.evp_proxy.request_error'' 1 tags] else [])"
proof -
  have tags: "contentTypeTag req @ subdomainTag req = tags"
    unfolding assms(2,3,4) by (simp add: contentTypeTag_def subdomainTag_def Let_def)
  show ?thesis
    unfolding assms(1)
    using roundTripBody_metrics [of t version "limitBody (conf t) req" "contentTypeTag req" s]
    by (simp add: RoundTrip_unfold Let_def tags)
qed

theorem metrics_once_per_call_witness:
  "filter isMetric (events dualShippingRun) =
     [Count ''datadog.trace_agent.evp_proxy.request'' 1
        [''content_type:text/json'', ''subdomain:my.subdomain''],
      Count ''datadog.trace_agent.evp_proxy.request_bytes'' 7
        [''content_type:text/json'', ''subdomain:my.subdomain''],
      Timing ''datadog.trace_agent.evp_proxy.request_duration_ms''
        [''content_type:text/json'', ''subdomain:my.subdomain'']]"
proof -
  have "rerr dualShippingRun = None"
    by (simp add: run_simps)
  then show ?thesis
    using metrics_once_per_call [where t = testTransport and version = "''7.40.0''"
      and req = testRequest and s = "[]", OF dualShippingRun_def refl refl refl]
    by (simp add: testRequest_def header_Get_def containsRune_def validSubdomainSymbols_def)
qed

subsection \<open>Outbound headers\<close>

text \<open>
  Claim C7. Every request handed to the transport carries a header set built from
  scratch: \<open>Via\<close> with the fixed text and the version, \<open>User-Agent\<close> with the inbound
  value even when that is empty, \<open>X-Datadog-Hostname\<close>, \<open>X-Datadog-AgentDefaultEnv\<close>,
  and \<open>DD-API-KEY\<close> with the API key of its endpoint; \<open>Content-Type\<close> exactly when the
  inbound content type is not empty; \<open>X-Datadog-Container-Tags\<close> exactly when the
  inbound container ID is not empty and the tag lookup returns a non-empty string; and
  no other header. A valid request with at least one endpoint reaches the transport
  when there is a single endpoint or the body can be buffered.
\<close>

theorem outbound_headers:
  assumes "out = RoundTrip t version req s"
    and "sends = sent (events out)"
    and "contentType = header_Get (req_Header req) ''Content-Type''"
    and "userAgent = header_Get (req_Header req) ''User-Agent''"
    and "containerID = header_Get (req_Header req) ''Datadog-Container-ID''"
  shows "(\<forall>i<length sends.
            req_Header (sends ! i) ''Via'' = Some [''trace-agent '' @ version]
          \<and> req_Header (sends ! i) ''User-Agent'' = Some [userAgent]
          \<and> req_Header (sends ! i) ''X-Datadog-Hostname'' = Some [Hostname (conf t)]
          \<and> req_Header (sends ! i) ''X-Datadog-AgentDefaultEnv'' = Some [DefaultEnv (conf t)]
          \<and> req_Header (sends ! i) ''DD-API-KEY'' = Some [APIKey (endpoints t ! i)]
          \<and> req_Header (sends ! i) ''Content-Type''
              = (if contentType \<noteq> [] then Some [contentType] else None)
          \<and> req_Header (sends ! i) ''X-Datadog-Container-Tags''
              = (if containerID \<noteq> [] \<and> ContainerTags (conf t) containerID \<noteq> []
                 then Some [ContainerTags (conf t) containerID] else None)
          \<and> dom (req_Header (sends ! i))
              \<subseteq> {''Via'', ''User-Agent'', ''X-Datadog-Hostname'', ''X-Datadog-AgentDefaultEnv'',
                 ''DD-API-KEY'', ''Content-Type'', ''X-Datadog-Container-Tags''})
       \<and> (validRequest req \<and> endpoints t \<noteq> []
            \<and> (length (endpoints t) = 1
                \<or> (\<exists>slurp. slurpBody (limitBody (conf t) req) = Inr slurp))
          \<longrightarrow> sends \<noteq> [])"
proof -
  obtain n slurp where n: "n \<le> length (endpoints t)"
    and sends: "sends = map (newreqFor (header_Get (req_Header req) ''X-Datadog-EVP-Subdomain'')
                   (rewritten (conf t) version (limitBody (conf t) req)) slurp)
                 (take n (endpoints t))"
    and pos: "validRequest req \<and> endpoints t \<noteq> []
           \<and> (length (endpoints t) = 1 \<or> (\<exists>sl. slurpBody (limitBody (conf t) req) = Inr sl))
          \<longrightarrow> 0 < n"
    using RoundTrip_sent [of t version req s] unfolding assms(1,2) by (elim exE conjE)
  have len: "length sends = n" using n sends by simp
  have hdr: "req_Header (sends ! i) =
               header_Set (standardHeaders (conf t) version contentType userAgent containerID)
                 ''DD-API-KEY'' (APIKey (endpoints t ! i))" if "i < n" for i
    using that n by (simp add: sends assms(3,4,5))
  have nonempty: "sends \<noteq> []" if "0 < n" using that len by auto
  have "dom (header_Set (standardHeaders (conf t) version contentType userAgent containerID)
                 ''DD-API-KEY'' k)
          \<subseteq> {''Via'', ''User-Agent'', ''X-Datadog-Hostname'', ''X-Datadog-AgentDefaultEnv'',
                 ''DD-API-KEY'', ''Content-Type'', ''X-Datadog-Container-Tags''}" for k
    by (auto simp add: header_Set_def standardHeaders_lookup dom_def split: if_splits)
  then show ?thesis
    using pos nonempty unfolding len
    by (simp add: hdr header_Set_def standardHeaders_lookup getContainerTags_def)
qed

theorem outbound_headers_witness:
  "sent (events dualShippingRun) \<noteq> []
   \<and> req_Header (sent (events dualShippingRun) ! 0) ''DD-API-KEY'' = Some [''test_api_key'']
   \<and> req_Header (sent (events dualShippingRun) ! 0) ''Via'' = Some [''trace-agent 7.40.0'']
   \<and> req_Header (sent (events dualShippingRun) ! 0) ''User-Agent'' = Some [''test_user_agent'']
   \<and> req_Header (sent (events dualShippingRun) ! 0) ''X-Datadog-Hostname'' = Some [''test_hostname'']
   \<and> req_Header (sent (events dualShippingRun) ! 0) ''X-Datadog-AgentDefaultEnv'' = Some [''test_env'']
   \<and> req_Header (sent (events dualShippingRun) ! 0) ''Content-Type'' = Some [''text/json'']
   \<and> req_Header (sent (events dualShippingRun) ! 0) ''X-Datadog-Container-Tags'' = None
   \<and> req_Header (sent (events dualShippingRun) ! 0) ''Unexpected-Header'' = None"
proof -
  note headers = outbound_headers [where t = testTransport and version = "''7.40.0''"
      and req = testRequest and s = "[]", OF dualShippingRun_def refl refl refl refl]
  have nonempty: "sent (events dualShippingRun) \<noteq> []"
    using headers testRequest_valid testRequest_slurp by (simp add: testTransport_fields)
  then have zero: "0 < length (sent (events dualShippingRun))" by simp
  have "''Unexpected-Header'' \<notin> dom (req_Header (sent (events dualShippingRun) ! 0))"
    using headers zero by auto
  then have "req_Header (sent (events dualShippingRun) ! 0) ''Unexpected-Header'' = None"
    by (simp add: dom_def)
  then show ?thesis
    using headers zero nonempty
    by (simp add: testTransport_fields testConfig_def testRequest_def header_Get_def)
qed

subsection \<open>Fan-out\<close>

text \<open>
  Claim C3. With more than one endpoint, a request that passes validation and whose
  body can be buffered is sent to every endpoint in the order of the list, whatever the
  transport answers, provided the transport never answers with a nil response and a nil
  error at once. \<open>RoundTrip\<close> returns exactly the response and error of the first send.
  Of the later sends, each error is logged and each response that came without an error
  is drained and closed; none of them is returned.
\<close>

theorem fan_out_primary_and_secondaries:
  assumes "out = RoundTrip t version req s"
    and "subdomain = header_Get (req_Header req) ''X-Datadog-EVP-Subdomain''"
    and "subdomain \<noteq> []" and "isValidSubdomain subdomain"
    and "isValidPath (url_Path req)" and "isValidQueryString (url_RawQuery req)"
    and "length (endpoints t) > 1"
    and "slurpBody (limitBody (conf t) req) = Inr slurp"
    and "honoursContract (transport t)"
    and "sends = sent (events out)"
    and "answers = roundTrips (transport t) s sends"
  shows "map req_Host sends = map (\<lambda>e. subdomain @ ''.'' @ Host e) (endpoints t)
       \<and> map (\<lambda>r. req_Header r ''DD-API-KEY'') sends = map (\<lambda>e. Some [APIKey e]) (endpoints t)
       \<and> length answers = length (endpoints t)
       \<and> (rresp out, rerr out) = hd answers
       \<and> logged (events out) = failures (tl answers)
       \<and> drained (events out) = successes (tl answers)
       \<and> closed (events out) = successes (tl answers)
       \<and> \<not> panicked out"
proof -
  let ?lim = "limitBody (conf t) req"
  let ?rw = "rewritten (conf t) version ?lim"
  let ?loop = "forEachEndpoint (transport t) subdomain ?rw slurp 0 (endpoints t) (None, None) s"
  have valid: "validRequest ?lim"
    using assms(2-6) by (simp add: validRequest_def)
  have multi: "length (endpoints t) \<noteq> 1" and nonempty: "endpoints t \<noteq> []"
    using assms(7) by auto
  obtain res' p s' evs where loop: "?loop = (res', p, s', evs)"
    by (metis prod_cases4)
  note results = forEachEndpoint_results [OF assms(9) loop]
  have out: "rresp out = fst res'" "rerr out = snd res'" "panicked out = p"
    "sent (events out) = sent evs" "logged (events out) = logged evs"
    "drained (events out) = drained evs" "closed (events out) = closed evs"
    unfolding assms(1)
    using loop
    by (simp_all add: RoundTrip_unfold roundTripBody_fanout [OF valid multi assms(8)] Let_def
          split_beta assms(2) [symmetric])
  have sends: "sends = map (newreqFor subdomain ?rw slurp) (endpoints t)"
    using results out(4) assms(10) by simp
  have answers: "answers = roundTrips (transport t) s (map (newreqFor subdomain ?rw slurp) (endpoints t))"
    unfolding assms(11) sends ..
  show ?thesis
    using results nonempty out unfolding answers [symmetric]
    by (simp add: sends header_Set_def comp_def answers drop_Suc)
qed

theorem fan_out_primary_and_secondaries_witness:
  "map req_Host (sent (events flakyRun)) =
     [''my.subdomain.us3.datadoghq.com'', ''my.subdomain.datadoghq.eu'',
      ''my.subdomain.datadoghq.eu'']
   \<and> rresp flakyRun = Some \<lparr>StatusCode = 200, resp_Body = ''ok''\<rparr>
   \<and> rerr flakyRun = None
   \<and> logged (events flakyRun) = [ErrOther ''connection refused'']
   \<and> drained (events flakyRun) = [\<lparr>StatusCode = 200, resp_Body = ''ok''\<rparr>]
   \<and> closed (events flakyRun) = [\<lparr>StatusCode = 200, resp_Body = ''ok''\<rparr>]
   \<and> \<not> panicked flakyRun"
proof -
  have len: "length (endpoints flakyTransport) > 1"
    by (simp add: flakyTransport_fields)
  have slurp: "slurpBody (limitBody (conf flakyTransport) testRequest) = Inr (Some ''payload'')"
    by (simp add: flakyTransport_fields testConfig_def testRequest_def limitBody_def
          slurpBody_def readAll_def)
  have contract: "honoursContract (transport flakyTransport)"
    by (simp add: flakyTransport_fields secondCallFails_contract)
  note fan = fan_out_primary_and_secondaries [where t = flakyTransport and version = "''7.40.0''"
      and req = testRequest and s = 0, OF flakyRun_def testRequest_checks len slurp contract
      refl refl]
  have "length (sent (events flakyRun)) = 3"
    using fan by (metis length_map flakyTransport_fields(1) length_Cons list.size(3) numeral_3_eq_3)
  then obtain x y z where xyz: "sent (events flakyRun) = [x, y, z]"
    by (auto simp add: length_Suc_conv numeral_3_eq_3)
  show ?thesis
    using fan unfolding xyz
    by (simp add: flakyTransport_fields secondCallFails_def failures_def successes_def
          List.map_filter_simps)
qed

subsection \<open>Empty fields\<close>

text \<open>
  Claim C10. Each validator accepts the empty string. An empty subdomain is turned down
  by the length check of \<open>RoundTrip\<close>, with the error ``no subdomain specified'', which is
  not the ``invalid subdomain'' error and has a different message. A request with a
  valid subdomain and an empty path or an empty query string, the other field being
  valid, passes validation and is forwarded with that path and query string, as soon
  as there is an endpoint and either it is the only one or the body can be buffered.
\<close>

theorem empty_fields:
  assumes "out = RoundTrip t version req s"
    and "subdomain = header_Get (req_Header req) ''X-Datadog-EVP-Subdomain''"
    and "sends = sent (events out)"
  shows "isValidSubdomain [] \<and> isValidPath [] \<and> isValidQueryString []
       \<and> (subdomain = [] \<longrightarrow>
            rresp out = None \<and> rerr out = Some ErrNoSubdomain
          \<and> rerr out \<noteq> Some (ErrInvalidSubdomain subdomain)
          \<and> errorString ErrNoSubdomain \<noteq> errorString (ErrInvalidSubdomain subdomain)
          \<and> sends = [])
       \<and> (subdomain \<noteq> [] \<and> isValidSubdomain subdomain
            \<and> (url_Path req = [] \<and> isValidQueryString (url_RawQuery req)
                \<or> url_RawQuery req = [] \<and> isValidPath (url_Path req))
            \<and> endpoints t \<noteq> []
            \<and> (length (endpoints t) = 1
                \<or> (\<exists>slurp. slurpBody (limitBody (conf t) req) = Inr slurp))
          \<longrightarrow> sends \<noteq> []
            \<and> url_Path (sends ! 0) = url_Path req
            \<and> url_RawQuery (sends ! 0) = url_RawQuery req)"
proof -
  have empty: "rresp out = None \<and> rerr out = Some ErrNoSubdomain \<and> sends = []"
    if "subdomain = []"
  proof -
    have inv: "\<not> validRequest (limitBody (conf t) req)"
      using that assms(2) by (simp add: validRequest_def)
    have "validationError req = ErrNoSubdomain"
      using that assms(2) by (simp add: validationError_def)
    then show ?thesis
      unfolding assms(1,3)
      by (simp add: RoundTrip_unfold roundTripBody_invalid [OF inv] Let_def)
  qed
  have forwarded: "sends \<noteq> [] \<and> url_Path (sends ! 0) = url_Path req
            \<and> url_RawQuery (sends ! 0) = url_RawQuery req"
    if "validRequest req" and "endpoints t \<noteq> []"
      and "length (endpoints t) = 1 \<or> (\<exists>slurp. slurpBody (limitBody (conf t) req) = Inr slurp)"
  proof -
    obtain n slurp where n: "n \<le> length (endpoints t)"
      and sends: "sends = map (newreqFor subdomain
                     (rewritten (conf t) version (limitBody (conf t) req)) slurp)
                   (take n (endpoints t))"
      and pos: "validRequest req \<and> endpoints t \<noteq> []
             \<and> (length (endpoints t) = 1 \<or> (\<exists>sl. slurpBody (limitBody (conf t) req) = Inr sl))
            \<longrightarrow> 0 < n"
      using RoundTrip_sent [of t version req s] unfolding assms(1,2,3) by (elim exE conjE)
    have "0 < n" using pos that by blast
    then show ?thesis using n that(2) by (simp add: sends)
  qed
  have valid: "validRequest req"
    if "subdomain \<noteq> []" "isValidSubdomain subdomain"
       "url_Path req = [] \<and> isValidQueryString (url_RawQuery req)
        \<or> url_RawQuery req = [] \<and> isValidPath (url_Path req)"
    using that assms(2) by (auto simp add: validRequest_def)
  show ?thesis
    using empty forwarded valid by auto
qed

theorem empty_fields_witness:
  "isValidSubdomain [] \<and> isValidPath [] \<and> isValidQueryString []
   \<and> rerr (RoundTrip testTransport ''7.40.0'' (testRequest\<lparr>req_Header := Map.empty\<rparr>) [])
       = Some ErrNoSubdomain
   \<and> sent (events (RoundTrip testTransport ''7.40.0''
                     (testRequest\<lparr>url_Path := [], url_RawQuery := []\<rparr>) [])) \<noteq> []
   \<and> url_Path (sent (events (RoundTrip testTransport ''7.40.0''
                     (testRequest\<lparr>url_Path := [], url_RawQuery := []\<rparr>) [])) ! 0) = []
   \<and> url_RawQuery (sent (events (RoundTrip testTransport ''7.40.0''
                     (testRequest\<lparr>url_Path := [], url_RawQuery := []\<rparr>) [])) ! 0) = []"
proof -
  let ?noHeader = "testRequest\<lparr>req_Header := Map.empty\<rparr>"
  let ?noPath = "testRequest\<lparr>url_Path := [], url_RawQuery := []\<rparr>"
  note first = empty_fields [where t = testTransport and version = "''7.40.0''" and s = "[]"
      and req = ?noHeader, OF refl refl refl]
  note second = empty_fields [where t = testTransport and version = "''7.40.0''" and s = "[]"
      and req = ?noPath, OF refl refl refl]
  have none: "header_Get (req_Header ?noHeader) ''X-Datadog-EVP-Subdomain'' = []"
    by (simp add: header_Get_def)
  have rejected: "rerr (RoundTrip testTransport ''7.40.0'' ?noHeader []) = Some ErrNoSubdomain"
    using first none by blast
  have "header_Get (req_Header ?noPath) ''X-Datadog-EVP-Subdomain'' = ''my.subdomain''"
    by (simp add: testRequest_def header_Get_def)
  moreover have "slurpBody (limitBody (conf testTransport) ?noPath) = Inr (Some ''payload'')"
    by (simp add: testTransport_fields testConfig_def testRequest_def limitBody_def slurpBody_def
          readAll_def)
  ultimately have passes:
    "header_Get (req_Header ?noPath) ''X-Datadog-EVP-Subdomain'' \<noteq> []
     \<and> isValidSubdomain (header_Get (req_Header ?noPath) ''X-Datadog-EVP-Subdomain'')
     \<and> (url_Path ?noPath = [] \<and> isValidQueryString (url_RawQuery ?noPath)
         \<or> url_RawQuery ?noPath = [] \<and> isValidPath (url_Path ?noPath))
     \<and> endpoints testTransport \<noteq> []
     \<and> (length (endpoints testTransport) = 1
         \<or> (\<exists>slurp. slurpBody (limitBody (conf testTransport) ?noPath) = Inr slurp))"
    using testRequest_checks(3) by (simp add: testTransport_fields)
  have forwarded:
    "sent (events (RoundTrip testTransport ''7.40.0'' ?noPath [])) \<noteq> []
     \<and> url_Path (sent (events (RoundTrip testTransport ''7.40.0'' ?noPath [])) ! 0)
         = url_Path ?noPath
     \<and> url_RawQuery (sent (events (RoundTrip testTransport ''7.40.0'' ?noPath [])) ! 0)
         = url_RawQuery ?noPath"
    using second passes by blast
  show ?thesis
    using rejected forwarded by simp
qed

subsection \<open>Where the subdomain comes from\<close>

text \<open>
  Claim C5. The subdomain of the outbound target is the first segment of the inbound
  path, and only the remainder of the path is the outbound path. The test suite asks
  for exactly this in its happy case: the request to \<open>/my.subdomain/mypath/mysubpath\<close>,
  which carries no subdomain header, is to reach \<open>my.subdomain.us3.datadoghq.com\<close> with
  the path \<open>/mypath/mysubpath\<close>. \<open>RoundTrip\<close> does not do it. On that request it
  returns the error ``no subdomain specified'' and sends nothing; and when the header
  \<open>X-Datadog-EVP-Subdomain\<close> is given, as in the dual-shipping run, the host is built
  from the header and the whole inbound path is sent on, its first segment included.
\<close>

theorem subdomain_from_path_fails:
  "spec_pathSubdomain (url_Path happyCaseRequest) = ''my.subdomain''
   \<and> spec_pathRemainder (url_Path happyCaseRequest) = ''/mypath/mysubpath''
   \<and> rresp happyCaseRun = None
   \<and> rerr happyCaseRun = Some ErrNoSubdomain
   \<and> sent (events happyCaseRun) = []
   \<and> state happyCaseRun = []
   \<and> sent (events dualShippingRun) \<noteq> []
   \<and> req_Host (sent (events dualShippingRun) ! 0)
       \<noteq> spec_pathSubdomain (url_Path testRequest) @ ''.'' @ Host (endpoints testTransport ! 0)
   \<and> url_Path (sent (events dualShippingRun) ! 0) \<noteq> spec_pathRemainder (url_Path testRequest)"
proof -
  have segments:
    "spec_pathSubdomain (url_Path happyCaseRequest) = ''my.subdomain''"
    "spec_pathRemainder (url_Path happyCaseRequest) = ''/mypath/mysubpath''"
    by (simp_all add: happyCaseRequest_def spec_pathSubdomain_def spec_pathRemainder_def)
  have invalid: "\<not> validRequest (limitBody happyCaseConfig happyCaseRequest)"
    by (simp add: validRequest_def happyCaseRequest_def header_Get_def)
  have error: "validationError happyCaseRequest = ErrNoSubdomain"
    by (simp add: validationError_def happyCaseRequest_def header_Get_def)
  have rejected:
    "rresp happyCaseRun = None" "rerr happyCaseRun = Some ErrNoSubdomain"
    "sent (events happyCaseRun) = []" "state happyCaseRun = []"
    by (simp_all add: happyCaseRun_def RoundTrip_unfold roundTripBody_invalid [OF invalid]
          error Let_def)
  have header:
    "sent (events dualShippingRun) \<noteq> []"
    "req_Host (sent (events dualShippingRun) ! 0)
       \<noteq> spec_pathSubdomain (url_Path testRequest) @ ''.'' @ Host (endpoints testTransport ! 0)"
    "url_Path (sent (events dualShippingRun) ! 0) \<noteq> spec_pathRemainder (url_Path testRequest)"
    using dualShippingRun_primary
    by (simp_all add: testRequest_def testTransport_fields spec_pathSubdomain_def
          spec_pathRemainder_def)
  show ?thesis
    using segments rejected header by simp
qed

subsection \<open>Bodies over the size limit\<close>

text \<open>
  Claim C6 says that with a positive payload limit and a longer body, \<open>RoundTrip\<close>
  returns a read-limit error and makes no outbound request. With a single endpoint it
  does not: the wrapped body is streamed to the transport, which is called once, and a
  transport that answers without reading the body to the limit makes \<open>RoundTrip\<close> return
  its response and no error.
\<close>

theorem oversize_body_counterexample:
  "0 < evp_MaxPayloadSize (EVPProxy (conf streamingTransport))
   \<and> req_Body testRequest = Some (Source ''payload'' None)
   \<and> evp_MaxPayloadSize (EVPProxy (conf streamingTransport)) < int (length ''payload'')
   \<and> rresp oversizeRun = Some \<lparr>StatusCode = 202, resp_Body = []\<rparr>
   \<and> rerr oversizeRun = None
   \<and> length (sent (events oversizeRun)) = 1"
  using oversizeRun_eval
  by (simp add: streamingTransport_def limitedConfig_def testConfig_def testRequest_def)

text \<open>
  Claim C6, amended. Let a positive payload limit be configured and the inbound body be
  longer than it. A request that fails validation gets its validation error and nothing
  is sent: the body is wrapped in the size-limited reader, not read beforehand. For a
  request that passes validation, if the number of endpoints is not one, \<open>RoundTrip\<close>
  returns the read-limit error and no request is handed to the transport; if there is
  exactly one endpoint, \<open>RoundTrip\<close> hands the transport one request whose body is the
  size-limited reader, which fails with the read-limit error when read to its end, and
  returns what the transport returns.
\<close>

theorem oversize_body:
  assumes "out = RoundTrip t version req s"
    and "limit = evp_MaxPayloadSize (EVPProxy (conf t))" and "0 < limit"
    and "req_Body req = Some b" and "limit < int (length (fst (delivered b)))"
  shows "(\<not> validRequest req \<longrightarrow>
            rerr out = Some (validationError req) \<and> sent (events out) = [])
       \<and> (validRequest req \<and> length (endpoints t) \<noteq> 1 \<longrightarrow>
            rresp out = None \<and> rerr out = Some ErrLimitedReaderLimitReached
          \<and> sent (events out) = [] \<and> state out = s)
       \<and> (validRequest req \<and> length (endpoints t) = 1 \<longrightarrow>
            (\<exists>r. sent (events out) = [r]
                \<and> req_Body r = Some (LimitedReader b limit)
                \<and> readAll (LimitedReader b limit) = Inl ErrLimitedReaderLimitReached
                \<and> transport t s r = ((rresp out, rerr out), state out)))"
proof -
  let ?lim = "limitBody (conf t) req"
  have body: "req_Body ?lim = Some (LimitedReader b limit)"
    using limitBody_body [OF assms(4), of "conf t"] assms(2,3) by simp
  have over: "readAll (LimitedReader b limit) = Inl ErrLimitedReaderLimitReached"
    using readAll_over_limit [OF assms(5)] .
  have slurp: "slurpBody ?lim = Inl ErrLimitedReaderLimitReached"
    by (simp add: slurpBody_def body over)
  have invalid: "rerr out = Some (validationError req) \<and> sent (events out) = []"
    if "\<not> validRequest req"
  proof -
    have "\<not> validRequest ?lim" using that by simp
    then show ?thesis
      unfolding assms(1) by (simp add: RoundTrip_unfold roundTripBody_invalid Let_def)
  qed
  have multi: "rresp out = None \<and> rerr out = Some ErrLimitedReaderLimitReached
          \<and> sent (events out) = [] \<and> state out = s"
    if "validRequest req" and "length (endpoints t) \<noteq> 1"
  proof -
    have "validRequest ?lim" using that(1) by simp
    then show ?thesis
      unfolding assms(1)
      by (simp add: RoundTrip_unfold roundTripBody_unreadable [OF _ that(2) slurp] Let_def)
  qed
  have single: "\<exists>r. sent (events out) = [r]
                \<and> req_Body r = Some (LimitedReader b limit)
                \<and> readAll (LimitedReader b limit) = Inl ErrLimitedReaderLimitReached
                \<and> transport t s r = ((rresp out, rerr out), state out)"
    if v: "validRequest req" and one: "length (endpoints t) = 1"
  proof -
    have valid: "validRequest ?lim" using v by simp
    obtain e where e: "endpoints t = [e]" using one by (auto simp: length_Suc_conv)
    let ?r = "setTarget (header_Get (req_Header ?lim) ''X-Datadog-EVP-Subdomain'')
                (rewritten (conf t) version ?lim) (Host e) (APIKey e)"
    obtain resp err s' where tr: "transport t s ?r = ((resp, err), s')"
      by (metis surj_pair)
    have "sent (events out) = [?r]" "rresp out = resp" "rerr out = err" "state out = s'"
      unfolding assms(1) using tr
      by (simp_all add: RoundTrip_unfold roundTripBody_single [OF valid e] Let_def)
    then show ?thesis
      using tr body over by (intro exI [of _ ?r]) simp
  qed
  show ?thesis
    using invalid multi single by blast
qed

theorem oversize_body_witness:
  "rerr (RoundTrip limitedTransport ''7.40.0'' testRequest []) = Some ErrLimitedReaderLimitReached
   \<and> state (RoundTrip limitedTransport ''7.40.0'' testRequest []) = []
   \<and> length (sent (events (RoundTrip limitedTransport ''7.40.0'' testRequest []))) = 1
   \<and> rerr (RoundTrip limitedDualTransport ''7.40.0'' testRequest [])
       = Some ErrLimitedReaderLimitReached
   \<and> sent (events (RoundTrip limitedDualTransport ''7.40.0'' testRequest [])) = []
   \<and> errorString ErrLimitedReaderLimitReached = ''read limit reached''"
proof -
  have body: "req_Body testRequest = Some (Source ''payload'' None)"
    by (simp add: testRequest_def)
  have over: "4 < int (length (fst (delivered (Source ''payload'' None))))"
    by simp
  note one = oversize_body [where t = limitedTransport and version = "''7.40.0''"
      and req = testRequest and s = "[]" and limit = 4 and b = "Source ''payload'' None",
      OF refl _ _ body over]
  note three = oversize_body [where t = limitedDualTransport and version = "''7.40.0''"
      and req = testRequest and s = "[]" and limit = 4 and b = "Source ''payload'' None",
      OF refl _ _ body over]
  obtain r where r: "sent (events (RoundTrip limitedTransport ''7.40.0'' testRequest [])) = [r]"
      "req_Body r = Some (LimitedReader (Source ''payload'' None) 4)"
      "readAll (LimitedReader (Source ''payload'' None) 4) = Inl ErrLimitedReaderLimitReached"
      "roundTripperMock [] r =
         ((rresp (RoundTrip limitedTransport ''7.40.0'' testRequest []),
           rerr (RoundTrip limitedTransport ''7.40.0'' testRequest [])),
          state (RoundTrip limitedTransport ''7.40.0'' testRequest []))"
    using one testRequest_valid by (auto simp add: limitedTransport_fields)
  have single: "rerr (RoundTrip limitedTransport ''7.40.0'' testRequest [])
                  = Some ErrLimitedReaderLimitReached"
    "state (RoundTrip limitedTransport ''7.40.0'' testRequest []) = []"
    using r(4) by (simp_all add: roundTripperMock_def r(2) r(3))
  have multi: "rerr (RoundTrip limitedDualTransport ''7.40.0'' testRequest [])
                 = Some ErrLimitedReaderLimitReached"
    "sent (events (RoundTrip limitedDualTransport ''7.40.0'' testRequest [])) = []"
    using three testRequest_valid by (simp_all add: limitedTransport_fields)
  show ?thesis
    using single multi r(1) by simp
qed

end
